theory Spec2Isabelle
  imports Main "HOL-Library.Word" "HOL-Library.Sublist"
begin

unbundle bit_operations_syntax

section \<open>Machine integers and errors\<close>

type_synonym u8 = "8 word"
type_synonym i8 = "8 word"
type_synonym u16 = "16 word"
type_synonym u32 = "32 word"

text \<open>
  Modelled from the spec: the error kinds of the bit buffers (section 4.2 of the
  specification); the buffer package \<open>spi/utils\<close> is not among the sources.
\<close>

datatype error_code = TRUNCATED | ALIGNMENT | OVERFLOW

text \<open>
  Go error values. \<open>New s\<close> is \<open>errors.New(s)\<close> (and \<open>errors.Errorf\<close> once its
  \<open>%s\<close> verbs are filled in), \<open>Wrap e s\<close> is \<open>errors.Wrap(e, s)\<close> of
  \<open>github.com/pkg/errors\<close>, whose message is \<open>s + ": " + e.Error()\<close>.
\<close>

datatype error = Code error_code | New string | Wrap error string

fun code_text :: "error_code \<Rightarrow> string" where
  "code_text TRUNCATED = ''TRUNCATED''"
| "code_text ALIGNMENT = ''ALIGNMENT''"
| "code_text OVERFLOW = ''OVERFLOW''"

fun Error :: "error \<Rightarrow> string" where
  "Error (Code c) = code_text c"
| "Error (New s) = s"
| "Error (Wrap e s) = s @ '': '' @ Error e"

section \<open>Bit buffers\<close>

text \<open>
  Modelled from the spec: \<open>utils.ReadBuffer\<close> and \<open>utils.WriteBuffer\<close> (section 3,
  "Read/Write buffer", and section 4.1). A read buffer owns a byte slice and a bit
  cursor; reads are big-endian, most significant bit first, and a read past the end
  fails with \<open>TRUNCATED\<close> and leaves the cursor where it was. A write buffer is the
  sequence of bits written so far; a value that does not fit the width fails with
  \<open>OVERFLOW\<close> and leaves the buffer as it was.
\<close>

record ReadBuffer =
  rb_data :: "u8 list"
  rb_pos :: nat

definition NewReadBuffer :: "u8 list \<Rightarrow> ReadBuffer" where
  "NewReadBuffer d = \<lparr>rb_data = d, rb_pos = 0\<rparr>"

text \<open>A word as its list of bits, most significant first, and back.\<close>

definition to_bl :: "'a::len word \<Rightarrow> bool list" where
  "to_bl w = map (bit w) (rev [0..<LENGTH('a)])"

definition of_bl :: "bool list \<Rightarrow> 'a::len word" where
  "of_bl bs = horner_sum of_bool 2 (rev bs)"

definition bits_of_bytes :: "u8 list \<Rightarrow> bool list" where
  "bits_of_bytes bs = concat (map to_bl bs)"

definition read_bits :: "nat \<Rightarrow> ReadBuffer \<Rightarrow> (error + bool list) \<times> ReadBuffer" where
  "read_bits n io =
     (if rb_pos io + n \<le> 8 * length (rb_data io)
      then (Inr (take n (drop (rb_pos io) (bits_of_bytes (rb_data io)))),
            io\<lparr>rb_pos := rb_pos io + n\<rparr>)
      else (Inl (Code TRUNCATED), io))"

definition signed_of_bl :: "bool list \<Rightarrow> 'a::len word" where
  "signed_of_bl bs =
     of_bl (replicate (LENGTH('a) - length bs) (bs \<noteq> [] \<and> hd bs) @ bs)"

definition ReadUint8 :: "nat \<Rightarrow> ReadBuffer \<Rightarrow> (error + u8) \<times> ReadBuffer" where
  "ReadUint8 bitLength io =
     (case read_bits bitLength io of
        (Inl e, io') \<Rightarrow> (Inl e, io')
      | (Inr bs, io') \<Rightarrow> (Inr (of_bl bs), io'))"

definition ReadUint32 :: "nat \<Rightarrow> ReadBuffer \<Rightarrow> (error + u32) \<times> ReadBuffer" where
  "ReadUint32 bitLength io =
     (case read_bits bitLength io of
        (Inl e, io') \<Rightarrow> (Inl e, io')
      | (Inr bs, io') \<Rightarrow> (Inr (of_bl bs), io'))"

definition ReadInt8 :: "nat \<Rightarrow> ReadBuffer \<Rightarrow> (error + i8) \<times> ReadBuffer" where
  "ReadInt8 bitLength io =
     (case read_bits bitLength io of
        (Inl e, io') \<Rightarrow> (Inl e, io')
      | (Inr bs, io') \<Rightarrow> (Inr (signed_of_bl bs), io'))"

record WriteBuffer =
  wb_bits :: "bool list"

definition NewWriteBuffer :: WriteBuffer where
  "NewWriteBuffer = \<lparr>wb_bits = []\<rparr>"

definition write_bits :: "bool list \<Rightarrow> WriteBuffer \<Rightarrow> WriteBuffer" where
  "write_bits bs io = io\<lparr>wb_bits := wb_bits io @ bs\<rparr>"

definition uint_bits :: "nat \<Rightarrow> 'a::len word \<Rightarrow> bool list" where
  "uint_bits n v = replicate (n - LENGTH('a)) False @ drop (LENGTH('a) - n) (to_bl v)"

definition sint_bits :: "nat \<Rightarrow> 'a::len word \<Rightarrow> bool list" where
  "sint_bits n v = replicate (n - LENGTH('a)) (sint v < 0) @ drop (LENGTH('a) - n) (to_bl v)"

definition WriteUint8 :: "nat \<Rightarrow> u8 \<Rightarrow> WriteBuffer \<Rightarrow> error option \<times> WriteBuffer" where
  "WriteUint8 bitLength v io =
     (if unat v < 2 ^ bitLength then (None, write_bits (uint_bits bitLength v) io)
      else (Some (Code OVERFLOW), io))"

definition WriteUint32 :: "nat \<Rightarrow> u32 \<Rightarrow> WriteBuffer \<Rightarrow> error option \<times> WriteBuffer" where
  "WriteUint32 bitLength v io =
     (if unat v < 2 ^ bitLength then (None, write_bits (uint_bits bitLength v) io)
      else (Some (Code OVERFLOW), io))"

definition WriteInt8 :: "nat \<Rightarrow> i8 \<Rightarrow> WriteBuffer \<Rightarrow> error option \<times> WriteBuffer" where
  "WriteInt8 bitLength v io =
     (if 0 < bitLength \<and> - (2 ^ (bitLength - 1)) \<le> sint v \<and> sint v < 2 ^ (bitLength - 1)
      then (None, write_bits (sint_bits bitLength v) io)
      else (Some (Code OVERFLOW), io))"

text \<open>\<open>GetBytes\<close>: the bits written, eight to a byte, the last byte filled with zeros.\<close>

fun bytes_of_bits :: "bool list \<Rightarrow> u8 list" where
  "bytes_of_bits (a # b # c # d # e # f # g # h # rest) =
     of_bl [a, b, c, d, e, f, g, h] # bytes_of_bits rest"
| "bytes_of_bits [] = []"
| "bytes_of_bits bs = [of_bl (bs @ replicate (8 - length bs) False)]"

definition GetBytes :: "WriteBuffer \<Rightarrow> u8 list" where
  "GetBytes io = bytes_of_bits (wb_bits io)"

section \<open>AdsNotificationSample\<close>

text \<open>
  A slice is the list of its items: the nil slice and the empty slice are both the empty
  list, as \<open>len\<close> and \<open>range\<close> do not tell them apart.
\<close>

record AdsNotificationSample =
  NotificationHandle :: u32
  SampleSize :: u32
  Data :: "i8 list"

definition NewAdsNotificationSample :: "u32 \<Rightarrow> u32 \<Rightarrow> i8 list \<Rightarrow> AdsNotificationSample" where
  "NewAdsNotificationSample notificationHandle sampleSize data =
     \<lparr>NotificationHandle = notificationHandle, SampleSize = sampleSize, Data = data\<rparr>"

text \<open>
  \<open>LengthInBits\<close> returns a \<open>uint16\<close>: the sum is computed in 16 bits, and
  \<open>uint16(len(m.Data))\<close> truncates the length.
\<close>

definition AdsNotificationSample_LengthInBits :: "AdsNotificationSample \<Rightarrow> u16" where
  "AdsNotificationSample_LengthInBits m =
     (let lengthInBits = 0;
          lengthInBits = lengthInBits + 32;
          lengthInBits = lengthInBits + 32;
          lengthInBits = (if length (Data m) > 0
                          then lengthInBits + 8 * of_nat (length (Data m))
                          else lengthInBits)
      in lengthInBits)"

definition AdsNotificationSample_LengthInBytes :: "AdsNotificationSample \<Rightarrow> u16" where
  "AdsNotificationSample_LengthInBytes m = AdsNotificationSample_LengthInBits m div 8"

text \<open>
  The count loop of \<open>AdsNotificationSampleParse\<close>: \<open>curItem\<close> is a \<open>uint16\<close> that
  runs up to \<open>uint16(sampleSize)\<close>, and each item read is stored at \<open>data[curItem]\<close>.
  The slice \<open>data\<close> has \<open>sampleSize\<close> elements, so the index is always in range.
\<close>

function AdsNotificationSampleParse_loop ::
  "u16 \<Rightarrow> u16 \<Rightarrow> i8 list \<Rightarrow> ReadBuffer \<Rightarrow> (error + i8 list) \<times> ReadBuffer" where
  "AdsNotificationSampleParse_loop curItem n data io =
     (if curItem < n
      then (case ReadInt8 8 io of
              (Inl err, io') \<Rightarrow> (Inl (New (''Error parsing 'data' field '' @ Error err)), io')
            | (Inr item, io') \<Rightarrow>
                AdsNotificationSampleParse_loop (curItem + 1) n (data[unat curItem := item]) io')
      else (Inr data, io))"
  by pat_completeness auto
termination
proof (relation "measure (\<lambda>(curItem, n, data, io). unat n - unat curItem)")
  show "wf (measure (\<lambda>(curItem, n, data, io). unat n - unat curItem))"
    by simp
next
  fix curItem n :: u16 and data :: "i8 list" and io :: ReadBuffer
    and x :: "(error + i8) \<times> ReadBuffer" and x1 :: "error + i8" and x2 :: ReadBuffer and b :: i8
  assume lt: "curItem < n"
  then have "unat curItem < unat n"
    by (simp add: word_less_nat_alt)
  moreover have "unat n < 2 ^ 16"
    using unsigned_less [of n] by simp
  ultimately have "unat curItem + 1 < 2 ^ 16"
    by simp
  then have "unat (curItem + 1) = Suc (unat curItem)"
    by (simp add: unat_word_ariths)
  with \<open>unat curItem < unat n\<close> show "((curItem + 1, n, data[unat curItem := b], x2), (curItem, n, data, io))
      \<in> measure (\<lambda>(curItem, n, data, io). unat n - unat curItem)"
    by simp
qed

definition AdsNotificationSampleParse ::
  "ReadBuffer \<Rightarrow> (error + AdsNotificationSample) \<times> ReadBuffer" where
  "AdsNotificationSampleParse io =
     (case ReadUint32 32 io of
        (Inl err, io1) \<Rightarrow>
          (Inl (New (''Error parsing 'notificationHandle' field '' @ Error err)), io1)
      | (Inr notificationHandle, io1) \<Rightarrow>
          (case ReadUint32 32 io1 of
             (Inl err, io2) \<Rightarrow>
               (Inl (New (''Error parsing 'sampleSize' field '' @ Error err)), io2)
           | (Inr sampleSize, io2) \<Rightarrow>
               (case AdsNotificationSampleParse_loop 0 (ucast sampleSize)
                       (replicate (unat sampleSize) 0) io2 of
                  (Inl err, io3) \<Rightarrow> (Inl err, io3)
                | (Inr data, io3) \<Rightarrow>
                    (Inr (NewAdsNotificationSample notificationHandle sampleSize data), io3))))"

declare AdsNotificationSampleParse_loop.simps [simp del]

fun AdsNotificationSample_Serialize_loop ::
  "i8 list \<Rightarrow> WriteBuffer \<Rightarrow> error option \<times> WriteBuffer" where
  "AdsNotificationSample_Serialize_loop [] io = (None, io)"
| "AdsNotificationSample_Serialize_loop (element # rest) io =
     (case WriteInt8 8 element io of
        (Some err, io') \<Rightarrow> (Some (New (''Error serializing 'data' field '' @ Error err)), io')
      | (None, io') \<Rightarrow> AdsNotificationSample_Serialize_loop rest io')"

definition AdsNotificationSample_Serialize ::
  "AdsNotificationSample \<Rightarrow> WriteBuffer \<Rightarrow> error option \<times> WriteBuffer" where
  "AdsNotificationSample_Serialize m io =
     (case WriteUint32 32 (NotificationHandle m) io of
        (Some err, io1) \<Rightarrow>
          (Some (New (''Error serializing 'notificationHandle' field '' @ Error err)), io1)
      | (None, io1) \<Rightarrow>
          (case WriteUint32 32 (SampleSize m) io1 of
             (Some err, io2) \<Rightarrow>
               (Some (New (''Error serializing 'sampleSize' field '' @ Error err)), io2)
           | (None, io2) \<Rightarrow> AdsNotificationSample_Serialize_loop (Data m) io2))"


text \<open>A notification sample of 65536 items and one of 8184 items.\<close>

definition sample_65536 :: AdsNotificationSample where
  "sample_65536 = \<lparr>NotificationHandle = 0, SampleSize = 65536, Data = replicate 65536 1\<rparr>"


section \<open>Panics\<close>

text \<open>
  A Go function either returns or panics; the run-time panics that the modelled code can
  raise are a nil dereference, an index out of range and an explicit \<open>panic(msg)\<close>.
\<close>

datatype panic = NilPointerDereference | IndexOutOfRange | PanicMessage string

datatype 'a outcome = Return 'a | Panic panic

section \<open>ApduControlContainer\<close>

text \<open>
  \<open>ApduControl\<close> and the parent \<open>Apdu\<close> are not among the sources: the type of the
  control APDU is a type parameter, and its \<open>LengthInBits\<close> and \<open>Serialize\<close> and the
  parent's \<open>SerializeParent\<close> are parameters of the functions below.
\<close>

record Apdu =
  Numbered :: bool
  Counter :: u8

record 'a ApduControlContainer =
  ControlApdu :: 'a
  Parent :: Apdu

definition ApduControlContainer_Control :: "'a ApduControlContainer \<Rightarrow> u8" where
  "ApduControlContainer_Control m = 1"

definition ApduControlContainer_LengthInBits ::
  "('a \<Rightarrow> u16) \<Rightarrow> 'a ApduControlContainer \<Rightarrow> u16" where
  "ApduControlContainer_LengthInBits ApduControl_LengthInBits m =
     (let lengthInBits = 0;
          lengthInBits = lengthInBits + ApduControl_LengthInBits (ControlApdu m)
      in lengthInBits)"

definition ApduControlContainer_LengthInBytes ::
  "('a \<Rightarrow> u16) \<Rightarrow> 'a ApduControlContainer \<Rightarrow> u16" where
  "ApduControlContainer_LengthInBytes ApduControl_LengthInBits m =
     ApduControlContainer_LengthInBits ApduControl_LengthInBits m div 8"

text \<open>The closure \<open>ser\<close> of \<open>Serialize\<close>, which writes the container's own field.\<close>

definition ApduControlContainer_ser ::
  "('a \<Rightarrow> WriteBuffer \<Rightarrow> error option \<times> WriteBuffer) \<Rightarrow> 'a ApduControlContainer \<Rightarrow>
   WriteBuffer \<Rightarrow> error option \<times> WriteBuffer" where
  "ApduControlContainer_ser ApduControl_Serialize m io =
     (case ApduControl_Serialize (ControlApdu m) io of
        (Some err, io') \<Rightarrow> (Some (Wrap err ''Error serializing 'controlApdu' field''), io')
      | (None, io') \<Rightarrow> (None, io'))"

definition ApduControlContainer_Serialize ::
  "(Apdu \<Rightarrow> WriteBuffer \<Rightarrow> 'a ApduControlContainer \<Rightarrow>
      (WriteBuffer \<Rightarrow> error option \<times> WriteBuffer) \<Rightarrow> error option \<times> WriteBuffer) \<Rightarrow>
   ('a \<Rightarrow> WriteBuffer \<Rightarrow> error option \<times> WriteBuffer) \<Rightarrow> 'a ApduControlContainer \<Rightarrow>
   WriteBuffer \<Rightarrow> error option \<times> WriteBuffer" where
  "ApduControlContainer_Serialize Apdu_SerializeParent ApduControl_Serialize m io =
     Apdu_SerializeParent (Parent m) io m (ApduControlContainer_ser ApduControl_Serialize m)"

section \<open>ApduDataExt\<close>

text \<open>
  The sub-types of \<open>ApduDataExt\<close> are not among the sources. A child is its type tag with
  a payload of a type parameter; the parsers of the sub-types are one parameter
  \<open>ChildParse\<close>, which gets the \<open>length\<close> argument for the two sub-types whose parser
  takes it. A sub-type's parser creates the child, attaches it to a fresh parent and
  returns the parent, as \<open>ApduControlContainerParse\<close> does; the \<open>InitializeParent\<close>
  of a sub-type gets the parent alone and has nothing to lift into it.
\<close>

datatype ApduDataExtChild_type =
    ApduDataExtOpenRoutingTableRequest
  | ApduDataExtReadRoutingTableRequest
  | ApduDataExtReadRoutingTableResponse
  | ApduDataExtWriteRoutingTableRequest
  | ApduDataExtReadRouterMemoryRequest
  | ApduDataExtReadRouterMemoryResponse
  | ApduDataExtWriteRouterMemoryRequest
  | ApduDataExtReadRouterStatusRequest
  | ApduDataExtReadRouterStatusResponse
  | ApduDataExtWriteRouterStatusRequest
  | ApduDataExtMemoryBitWrite
  | ApduDataExtAuthorizeRequest
  | ApduDataExtAuthorizeResponse
  | ApduDataExtKeyWrite
  | ApduDataExtKeyResponse
  | ApduDataExtPropertyValueRead
  | ApduDataExtPropertyValueResponse
  | ApduDataExtPropertyValueWrite
  | ApduDataExtPropertyDescriptionRead
  | ApduDataExtPropertyDescriptionResponse
  | ApduDataExtNetworkParameterRead
  | ApduDataExtNetworkParameterResponse
  | ApduDataExtIndividualAddressSerialNumberRead
  | ApduDataExtIndividualAddressSerialNumberResponse
  | ApduDataExtIndividualAddressSerialNumberWrite
  | ApduDataExtDomainAddressWrite
  | ApduDataExtDomainAddressRead
  | ApduDataExtDomainAddressResponse
  | ApduDataExtDomainAddressSelectiveRead
  | ApduDataExtNetworkParameterWrite
  | ApduDataExtLinkRead
  | ApduDataExtLinkResponse
  | ApduDataExtLinkWrite
  | ApduDataExtGroupPropertyValueRead
  | ApduDataExtGroupPropertyValueResponse
  | ApduDataExtGroupPropertyValueWrite
  | ApduDataExtGroupPropertyValueInfoReport
  | ApduDataExtDomainAddressSerialNumberRead
  | ApduDataExtDomainAddressSerialNumberResponse
  | ApduDataExtDomainAddressSerialNumberWrite
  | ApduDataExtFileStreamInfoReport

record 'p ApduDataExt =
  Child :: "(ApduDataExtChild_type \<times> 'p) option"

definition ApduDataExt_switch :: "u8 \<Rightarrow> ApduDataExtChild_type option" where
  "ApduDataExt_switch extApciType =
     (if extApciType = 0x00 then Some ApduDataExtOpenRoutingTableRequest
      else if extApciType = 0x01 then Some ApduDataExtReadRoutingTableRequest
      else if extApciType = 0x02 then Some ApduDataExtReadRoutingTableResponse
      else if extApciType = 0x03 then Some ApduDataExtWriteRoutingTableRequest
      else if extApciType = 0x08 then Some ApduDataExtReadRouterMemoryRequest
      else if extApciType = 0x09 then Some ApduDataExtReadRouterMemoryResponse
      else if extApciType = 0x0A then Some ApduDataExtWriteRouterMemoryRequest
      else if extApciType = 0x0D then Some ApduDataExtReadRouterStatusRequest
      else if extApciType = 0x0E then Some ApduDataExtReadRouterStatusResponse
      else if extApciType = 0x0F then Some ApduDataExtWriteRouterStatusRequest
      else if extApciType = 0x10 then Some ApduDataExtMemoryBitWrite
      else if extApciType = 0x11 then Some ApduDataExtAuthorizeRequest
      else if extApciType = 0x12 then Some ApduDataExtAuthorizeResponse
      else if extApciType = 0x13 then Some ApduDataExtKeyWrite
      else if extApciType = 0x14 then Some ApduDataExtKeyResponse
      else if extApciType = 0x15 then Some ApduDataExtPropertyValueRead
      else if extApciType = 0x16 then Some ApduDataExtPropertyValueResponse
      else if extApciType = 0x17 then Some ApduDataExtPropertyValueWrite
      else if extApciType = 0x18 then Some ApduDataExtPropertyDescriptionRead
      else if extApciType = 0x19 then Some ApduDataExtPropertyDescriptionResponse
      else if extApciType = 0x1A then Some ApduDataExtNetworkParameterRead
      else if extApciType = 0x1B then Some ApduDataExtNetworkParameterResponse
      else if extApciType = 0x1C then Some ApduDataExtIndividualAddressSerialNumberRead
      else if extApciType = 0x1D then Some ApduDataExtIndividualAddressSerialNumberResponse
      else if extApciType = 0x1E then Some ApduDataExtIndividualAddressSerialNumberWrite
      else if extApciType = 0x20 then Some ApduDataExtDomainAddressWrite
      else if extApciType = 0x21 then Some ApduDataExtDomainAddressRead
      else if extApciType = 0x22 then Some ApduDataExtDomainAddressResponse
      else if extApciType = 0x23 then Some ApduDataExtDomainAddressSelectiveRead
      else if extApciType = 0x24 then Some ApduDataExtNetworkParameterWrite
      else if extApciType = 0x25 then Some ApduDataExtLinkRead
      else if extApciType = 0x26 then Some ApduDataExtLinkResponse
      else if extApciType = 0x27 then Some ApduDataExtLinkWrite
      else if extApciType = 0x28 then Some ApduDataExtGroupPropertyValueRead
      else if extApciType = 0x29 then Some ApduDataExtGroupPropertyValueResponse
      else if extApciType = 0x2A then Some ApduDataExtGroupPropertyValueWrite
      else if extApciType = 0x2B then Some ApduDataExtGroupPropertyValueInfoReport
      else if extApciType = 0x2C then Some ApduDataExtDomainAddressSerialNumberRead
      else if extApciType = 0x2D then Some ApduDataExtDomainAddressSerialNumberResponse
      else if extApciType = 0x2E then Some ApduDataExtDomainAddressSerialNumberWrite
      else if extApciType = 0x30 then Some ApduDataExtFileStreamInfoReport
      else None)"

definition ApduDataExt_passes_length :: "ApduDataExtChild_type \<Rightarrow> bool" where
  "ApduDataExt_passes_length t =
     (t = ApduDataExtPropertyValueResponse \<or> t = ApduDataExtPropertyValueWrite)"

text \<open>
  When no case of the switch matches, \<open>_parent\<close> and \<open>typeSwitchError\<close> are both still
  nil: the error check passes and \<open>_parent.Child\<close> dereferences the nil pointer.
\<close>

definition ApduDataExtParse ::
  "(ApduDataExtChild_type \<Rightarrow> ReadBuffer \<Rightarrow> u8 option \<Rightarrow> (error + 'p) \<times> ReadBuffer) \<Rightarrow>
   ReadBuffer \<Rightarrow> u8 \<Rightarrow> (error + 'p ApduDataExt) outcome \<times> ReadBuffer" where
  "ApduDataExtParse ChildParse io length' =
     (case ReadUint8 6 io of
        (Inl err, io1) \<Rightarrow> (Return (Inl (Wrap err ''Error parsing 'extApciType' field'')), io1)
      | (Inr extApciType, io1) \<Rightarrow>
          (case ApduDataExt_switch extApciType of
             None \<Rightarrow> (Panic NilPointerDereference, io1)
           | Some t \<Rightarrow>
               (case ChildParse t io1 (if ApduDataExt_passes_length t then Some length' else None) of
                  (Inl typeSwitchError, io2) \<Rightarrow>
                    (Return (Inl (Wrap typeSwitchError ''Error parsing sub-type for type-switch.'')), io2)
                | (Inr child, io2) \<Rightarrow> (Return (Inr \<lparr>Child = Some (t, child)\<rparr>), io2))))"




section \<open>COTPParameter\<close>

text \<open>
  The five sub-types of \<open>COTPParameter\<close> are not among the sources. A child is its type
  tag with a payload of a type parameter; the sub-types' parsers, their \<open>LengthInBits\<close>
  and the closures with which they serialize their own fields are parameters. The
  discriminator accessor \<open>ParameterType\<close> of each sub-type is the value of its case in
  the switch of \<open>COTPParameterParse\<close>. The field \<open>Child\<close> is an interface value and may
  be nil. Only the parser of \<open>COTPParameterDisconnectAdditionalInformation\<close> takes the
  argument \<open>rest\<close>.
\<close>

datatype COTPParameterChild_type =
    COTPParameterTpduSize
  | COTPParameterCallingTsap
  | COTPParameterCalledTsap
  | COTPParameterChecksum
  | COTPParameterDisconnectAdditionalInformation

record 'p COTPParameter =
  COTPParameter_Child :: "(COTPParameterChild_type \<times> 'p) option"

fun ParameterType :: "COTPParameterChild_type \<Rightarrow> u8" where
  "ParameterType COTPParameterTpduSize = 0xC0"
| "ParameterType COTPParameterCallingTsap = 0xC1"
| "ParameterType COTPParameterCalledTsap = 0xC2"
| "ParameterType COTPParameterChecksum = 0xC3"
| "ParameterType COTPParameterDisconnectAdditionalInformation = 0xE0"

definition COTPParameter_switch :: "u8 \<Rightarrow> COTPParameterChild_type option" where
  "COTPParameter_switch parameterType =
     (if parameterType = 0xC0 then Some COTPParameterTpduSize
      else if parameterType = 0xC1 then Some COTPParameterCallingTsap
      else if parameterType = 0xC2 then Some COTPParameterCalledTsap
      else if parameterType = 0xC3 then Some COTPParameterChecksum
      else if parameterType = 0xE0 then Some COTPParameterDisconnectAdditionalInformation
      else None)"

definition COTPParameter_LengthInBits ::
  "(COTPParameterChild_type \<Rightarrow> 'p \<Rightarrow> u16) \<Rightarrow> 'p COTPParameter \<Rightarrow> u16 outcome" where
  "COTPParameter_LengthInBits Child_LengthInBits m =
     (case COTPParameter_Child m of
        None \<Rightarrow> Panic NilPointerDereference
      | Some (t, p) \<Rightarrow>
          (let lengthInBits = 0;
               lengthInBits = lengthInBits + 8;
               lengthInBits = lengthInBits + 8;
               lengthInBits = lengthInBits + Child_LengthInBits t p
           in Return lengthInBits))"

definition COTPParameter_LengthInBytes ::
  "(COTPParameterChild_type \<Rightarrow> 'p \<Rightarrow> u16) \<Rightarrow> 'p COTPParameter \<Rightarrow> u16 outcome" where
  "COTPParameter_LengthInBytes Child_LengthInBits m =
     (case COTPParameter_LengthInBits Child_LengthInBits m of
        Panic p \<Rightarrow> Panic p
      | Return lengthInBits \<Rightarrow> Return (lengthInBits div 8))"

definition COTPParameterParse ::
  "(COTPParameterChild_type \<Rightarrow> ReadBuffer \<Rightarrow> u8 option \<Rightarrow> (error + 'p) \<times> ReadBuffer) \<Rightarrow>
   ReadBuffer \<Rightarrow> u8 \<Rightarrow> (error + 'p COTPParameter) outcome \<times> ReadBuffer" where
  "COTPParameterParse ChildParse io rest =
     (case ReadUint8 8 io of
        (Inl err, io1) \<Rightarrow> (Return (Inl (Wrap err ''Error parsing 'parameterType' field'')), io1)
      | (Inr parameterType, io1) \<Rightarrow>
          (case ReadUint8 8 io1 of
             (Inl err, io2) \<Rightarrow>
               (Return (Inl (Wrap err ''Error parsing 'parameterLength' field'')), io2)
           | (Inr parameterLength, io2) \<Rightarrow>
               (case COTPParameter_switch parameterType of
                  None \<Rightarrow> (Panic NilPointerDereference, io2)
                | Some t \<Rightarrow>
                    (case ChildParse t io2
                            (if t = COTPParameterDisconnectAdditionalInformation
                             then Some rest else None) of
                       (Inl typeSwitchError, io3) \<Rightarrow>
                         (Return (Inl (Wrap typeSwitchError
                                         ''Error parsing sub-type for type-switch.'')), io3)
                     | (Inr child, io3) \<Rightarrow>
                         (Return (Inr \<lparr>COTPParameter_Child = Some (t, child)\<rparr>), io3)))))"

definition COTPParameter_SerializeParent ::
  "(COTPParameterChild_type \<Rightarrow> 'p \<Rightarrow> u16) \<Rightarrow> 'p COTPParameter \<Rightarrow> WriteBuffer \<Rightarrow>
   COTPParameterChild_type \<Rightarrow> (WriteBuffer \<Rightarrow> error option \<times> WriteBuffer) \<Rightarrow>
   (error option \<times> WriteBuffer) outcome" where
  "COTPParameter_SerializeParent Child_LengthInBits m io child serializeChildFunction =
     (let parameterType = ParameterType child in
      case WriteUint8 8 parameterType io of
        (Some err, io1) \<Rightarrow>
          Return (Some (Wrap err ''Error serializing 'parameterType' field''), io1)
      | (None, io1) \<Rightarrow>
          (case COTPParameter_LengthInBytes Child_LengthInBits m of
             Panic p \<Rightarrow> Panic p
           | Return lengthInBytes \<Rightarrow>
               (let parameterLength = (ucast lengthInBytes :: u8) - 2 in
                case WriteUint8 8 parameterLength io1 of
                  (Some err, io2) \<Rightarrow>
                    Return (Some (Wrap err ''Error serializing 'parameterLength' field''), io2)
                | (None, io2) \<Rightarrow>
                    (case serializeChildFunction io2 of
                       (Some err, io3) \<Rightarrow>
                         Return (Some (Wrap err ''Error serializing sub-type field''), io3)
                     | (None, io3) \<Rightarrow> Return (None, io3)))))"

text \<open>
  \<open>COTPParameter.Serialize\<close> is the \<open>Serialize\<close> of the child, which calls
  \<open>SerializeParent\<close> of its parent with itself and its closure, as
  \<open>ApduControlContainer.Serialize\<close> does.
\<close>

definition COTPParameter_Serialize ::
  "(COTPParameterChild_type \<Rightarrow> 'p \<Rightarrow> u16) \<Rightarrow>
   (COTPParameterChild_type \<Rightarrow> 'p \<Rightarrow> WriteBuffer \<Rightarrow> error option \<times> WriteBuffer) \<Rightarrow>
   'p COTPParameter \<Rightarrow> WriteBuffer \<Rightarrow> (error option \<times> WriteBuffer) outcome" where
  "COTPParameter_Serialize Child_LengthInBits Child_ser m io =
     (case COTPParameter_Child m of
        None \<Rightarrow> Panic NilPointerDereference
      | Some (t, p) \<Rightarrow>
          COTPParameter_SerializeParent Child_LengthInBits m io t (Child_ser t p))"

section \<open>URLs, options and channels\<close>

text \<open>
  The fields of Go's \<open>url.URL\<close> that the code reads or sets. \<open>url.Parse\<close>,
  \<open>URL.Query\<close>, \<open>URL.String\<close> and the \<open>%#v\<close> verb of \<open>fmt\<close> belong to the Go
  standard library: they are parameters of the functions that call them. The options
  are a \<open>map[string][]string\<close>.
\<close>

record URL =
  Scheme :: string
  Opaque :: string
  Host :: string
  RawQuery :: string

type_synonym options = "string \<rightharpoonup> string list"

text \<open>
  A channel of connect results is the list of the results delivered on it, in order.
  The pattern \<open>ch := make(chan ...); go func() { ch <- r }(); return ch\<close> is the
  channel \<open>[r]\<close>.
\<close>

typedecl PlcConnection

datatype PlcConnectionConnectResult =
  NewPlcConnectionConnectResult "PlcConnection option" "error option"

type_synonym channel = "PlcConnectionConnectResult list"

definition single_error :: "error \<Rightarrow> channel" where
  "single_error err = [NewPlcConnectionConnectResult None (Some err)]"

section \<open>Transports\<close>

text \<open>
  The interfaces \<open>transports.Transport\<close> and \<open>transports.TransportInstance\<close> are
  not among the sources. A transport is the record of its methods; a transport instance
  is the record of the methods that \<open>Receive\<close> calls, over the state \<open>'s\<close> of the
  instance, which each call may change.
\<close>

record 'ti Transport =
  GetTransportCode :: string
  GetTransportName :: string
  CreateTransportInstance :: "URL \<Rightarrow> options \<Rightarrow> error + 'ti"

record 's TransportInstance =
  GetNumReadableBytes :: "'s \<Rightarrow> (error + u32) \<times> 's"
  PeekReadableBytes :: "u32 \<Rightarrow> 's \<Rightarrow> (error + u8 list) \<times> 's"
  Read :: "u32 \<Rightarrow> 's \<Rightarrow> (error + u8 list) \<times> 's"

text \<open>
  Modelled from the spec: a transport instance as section 4.3 of the specification
  describes it. Its state is the list of bytes buffered locally: counting and peeking
  do not advance, a peek of more bytes than are present fails, and a read of \<open>n\<close> bytes
  that are present returns and removes them.
\<close>

definition buffered_TransportInstance :: "u8 list TransportInstance" where
  "buffered_TransportInstance =
     \<lparr>GetNumReadableBytes = (\<lambda>buf. (Inr (of_nat (length buf)), buf)),
      PeekReadableBytes = (\<lambda>n buf.
         if unat n \<le> length buf then (Inr (take (unat n) buf), buf)
         else (Inl (Code TRUNCATED), buf)),
      Read = (\<lambda>n buf.
         if unat n \<le> length buf then (Inr (take (unat n) buf), drop (unat n) buf)
         else (Inl (Code TRUNCATED), buf))\<rparr>"

section \<open>The S7 message codec\<close>

record 'ti MessageCodec =
  TransportInstance :: 'ti
  expectationCounter :: "32 word"

definition NewMessageCodec :: "'ti \<Rightarrow> 'ti MessageCodec" where
  "NewMessageCodec transportInstance =
     \<lparr>TransportInstance = transportInstance, expectationCounter = 1\<rparr>"

text \<open>The size of the entire packet as \<open>Receive\<close> computes it from the six bytes peeked.\<close>

definition packetSize :: "u8 list \<Rightarrow> u32" where
  "packetSize data = push_bit 8 (ucast (data ! 4)) + ucast (data ! 5) + 6"

text \<open>
  \<open>Receive\<close> returns the Go pair of a message and an error, each of which may be nil.
  \<open>model.COTPPacketParse\<close> is not among the sources and is a parameter. Indexing the
  peeked bytes panics when the transport returned fewer than six of them without an
  error.
\<close>

definition Receive ::
  "'s TransportInstance \<Rightarrow> (ReadBuffer \<Rightarrow> u16 \<Rightarrow> error + 'm) \<Rightarrow> 's \<Rightarrow>
   ('m option \<times> error option) outcome \<times> 's" where
  "Receive ti COTPPacketParse s =
     (case GetNumReadableBytes ti s of
        (Inr num, s1) \<Rightarrow>
          if num \<ge> 6 then
            (case PeekReadableBytes ti 6 s1 of
               (Inl err, s2) \<Rightarrow> (Return (None, None), s2)
             | (Inr data, s2) \<Rightarrow>
                 if length data < 6 then (Panic IndexOutOfRange, s2)
                 else if num < packetSize data then (Return (None, None), s2)
                 else
                   (case Read ti (packetSize data) s2 of
                      (Inl err, s3) \<Rightarrow> (Return (None, None), s3)
                    | (Inr data', s3) \<Rightarrow>
                        (case COTPPacketParse (NewReadBuffer data') (ucast (packetSize data)) of
                           Inl err \<Rightarrow> (Return (None, None), s3)
                         | Inr tcpAdu \<Rightarrow> (Return (Some tcpAdu, None), s3))))
          else (Return (None, None), s1)
      | (Inl err, s1) \<Rightarrow> (Return (None, None), s1))"

text \<open>
  The 22 bytes of a TPKT packet that carries a COTP connection request: the TPKT header
  \<open>03 00 00 16\<close>, whose bytes 2 and 3 give the total length 22, and the 18 bytes of the
  COTP packet.
\<close>

definition tpkt_22 :: "u8 list" where
  "tpkt_22 = [0x03, 0x00, 0x00, 0x16, 0x11, 0xE0, 0x00, 0x00, 0x00, 0x01, 0x00,
              0xC0, 0x01, 0x0A, 0xC1, 0x02, 0x01, 0x00, 0xC2, 0x02, 0x01, 0x02]"

text \<open>
  A transport instance without state that answers every call with a fixed result, and
  a parser that returns the bytes it was given.
\<close>

definition scripted_TransportInstance ::
  "(error + u32) \<Rightarrow> (error + u8 list) \<Rightarrow> (error + u8 list) \<Rightarrow> unit TransportInstance" where
  "scripted_TransportInstance n p r =
     \<lparr>GetNumReadableBytes = (\<lambda>s. (n, s)),
      PeekReadableBytes = (\<lambda>k s. (p, s)),
      Read = (\<lambda>k s. (r, s))\<rparr>"

definition bytes_parser :: "ReadBuffer \<Rightarrow> u16 \<Rightarrow> error + u8 list" where
  "bytes_parser io n = Inr (rb_data io)"

definition failing_parser :: "ReadBuffer \<Rightarrow> u16 \<Rightarrow> error + u8 list" where
  "failing_parser io n = Inl (Code TRUNCATED)"

section \<open>The S7 driver\<close>

record ('fh, 'tm) Driver =
  fieldHandler :: 'fh
  tm :: 'tm

definition Driver_GetProtocolCode :: "('fh, 'tm) Driver \<Rightarrow> string" where
  "Driver_GetProtocolCode m = ''s7''"

definition Driver_GetProtocolName :: "('fh, 'tm) Driver \<Rightarrow> string" where
  "Driver_GetProtocolName m = ''Siemens S7 (Basic)''"

definition Driver_GetDefaultTransport :: "('fh, 'tm) Driver \<Rightarrow> string" where
  "Driver_GetDefaultTransport m = ''tcp''"

text \<open>
  The functions of the package that \<open>GetConnection\<close> calls and that are not among the
  sources, with the two renderings of a URL from the standard library.
  \<open>NewDriverContext\<close> returns the Go pair of a context and an error.
\<close>

record ('ti, 'cfg, 'ctx, 'fh, 'tm, 'conn) S7_env =
  ParseFromOptions :: "options \<Rightarrow> error + 'cfg"
  NewDriverContext :: "'cfg \<Rightarrow> 'ctx \<times> error option"
  NewConnection :: "'ti MessageCodec \<Rightarrow> 'cfg \<Rightarrow> 'ctx \<Rightarrow> 'fh \<Rightarrow> 'tm \<Rightarrow> 'conn"
  Connect :: "'conn \<Rightarrow> channel"
  URL_GoString :: "URL \<Rightarrow> string"
  URL_String :: "URL \<Rightarrow> string"

text \<open>The steps of \<open>GetConnection\<close>; the function returns those it executed, in order.\<close>

datatype step =
    Step_LookupTransport
  | Step_InjectDefaultTcpPort
  | Step_CreateTransportInstance
  | Step_NewMessageCodec
  | Step_ParseFromOptions
  | Step_NewDriverContext
  | Step_NewConnection
  | Step_Connect

definition Driver_GetConnection ::
  "('ti, 'cfg, 'ctx, 'fh, 'tm, 'conn) S7_env \<Rightarrow> ('fh, 'tm) Driver \<Rightarrow> URL \<Rightarrow>
   (string \<rightharpoonup> 'ti Transport) \<Rightarrow> options \<Rightarrow> channel \<times> step list" where
  "Driver_GetConnection env m transportUrl transports options =
     (case transports (Scheme transportUrl) of
        None \<Rightarrow>
          (single_error (New (''couldn't find transport for given transport url '' @
                              URL_GoString env transportUrl)),
           [Step_LookupTransport])
      | Some transport \<Rightarrow>
          (let options = options(''defaultTcpPort'' \<mapsto> [''102'']) in
           case CreateTransportInstance transport transportUrl options of
             Inl err \<Rightarrow>
               (single_error
                  (New (''couldn't initialize transport configuration for given transport url '' @
                        URL_String env transportUrl)),
                [Step_LookupTransport, Step_InjectDefaultTcpPort, Step_CreateTransportInstance])
           | Inr transportInstance \<Rightarrow>
               (let codec = NewMessageCodec transportInstance in
                case ParseFromOptions env options of
                  Inl err \<Rightarrow>
                    (single_error (Wrap err ''Invalid options''),
                     [Step_LookupTransport, Step_InjectDefaultTcpPort,
                      Step_CreateTransportInstance, Step_NewMessageCodec, Step_ParseFromOptions])
                | Inr configuration \<Rightarrow>
                    (let (driverContext, err) = NewDriverContext env configuration;
                         connection = NewConnection env codec configuration driverContext
                                        (fieldHandler m) (tm m)
                     in (Connect env connection,
                         [Step_LookupTransport, Step_InjectDefaultTcpPort,
                          Step_CreateTransportInstance, Step_NewMessageCodec,
                          Step_ParseFromOptions, Step_NewDriverContext, Step_NewConnection,
                          Step_Connect])))))"

text \<open>The order of the steps as the specification gives it, and as the code has it.\<close>

definition specified_order :: "step list" where
  "specified_order =
     [Step_LookupTransport, Step_InjectDefaultTcpPort, Step_CreateTransportInstance,
      Step_ParseFromOptions, Step_NewMessageCodec, Step_NewDriverContext, Step_NewConnection,
      Step_Connect]"

definition code_order :: "step list" where
  "code_order =
     [Step_LookupTransport, Step_InjectDefaultTcpPort, Step_CreateTransportInstance,
      Step_NewMessageCodec, Step_ParseFromOptions, Step_NewDriverContext, Step_NewConnection,
      Step_Connect]"

section \<open>The driver manager\<close>

text \<open>The interface \<open>PlcDriver\<close> is the record of the methods the manager calls.\<close>

record 'ti PlcDriver =
  GetProtocolCode :: string
  GetProtocolName :: string
  GetDefaultTransport :: string
  GetConnection :: "URL \<Rightarrow> (string \<rightharpoonup> 'ti Transport) \<Rightarrow> options \<Rightarrow> channel"
  SupportsDiscovery :: bool

record 'ti PlcDriverManger =
  drivers :: "string \<rightharpoonup> 'ti PlcDriver"
  transports :: "string \<rightharpoonup> 'ti Transport"

definition NewPlcDriverManager :: "'ti PlcDriverManger" where
  "NewPlcDriverManager = \<lparr>drivers = Map.empty, transports = Map.empty\<rparr>"

text \<open>
  The argument of \<open>RegisterDriver\<close> is an interface value and may be nil. The loop over
  the keys of \<open>m.drivers\<close> returns early exactly when the protocol code is a key.
\<close>

definition RegisterDriver ::
  "'ti PlcDriverManger \<Rightarrow> 'ti PlcDriver option \<Rightarrow> 'ti PlcDriverManger outcome" where
  "RegisterDriver m driver =
     (case driver of
        None \<Rightarrow> Panic (PanicMessage ''driver must not be nil'')
      | Some d \<Rightarrow>
          if GetProtocolCode d \<in> dom (drivers m) then Return m
          else Return (m\<lparr>drivers := (drivers m)(GetProtocolCode d \<mapsto> d)\<rparr>))"

definition GetDriver :: "'ti PlcDriverManger \<Rightarrow> string \<Rightarrow> error + 'ti PlcDriver" where
  "GetDriver m driverName =
     (case drivers m driverName of
        Some val \<Rightarrow> Inr val
      | None \<Rightarrow> Inl (New (''couldn't find driver '' @ driverName)))"

definition RegisterTransport ::
  "'ti PlcDriverManger \<Rightarrow> 'ti Transport option \<Rightarrow> 'ti PlcDriverManger outcome" where
  "RegisterTransport m transport =
     (case transport of
        None \<Rightarrow> Panic (PanicMessage ''transport must not be nil'')
      | Some t \<Rightarrow>
          if GetTransportCode t \<in> dom (transports m) then Return m
          else Return (m\<lparr>transports := (transports m)(GetTransportCode t \<mapsto> t)\<rparr>))"

definition GetTransport ::
  "'ti PlcDriverManger \<Rightarrow> string \<Rightarrow> string \<Rightarrow> options \<Rightarrow> error + 'ti Transport" where
  "GetTransport m transportName connectionString opts =
     (case transports m transportName of
        Some val \<Rightarrow> Inr val
      | None \<Rightarrow> Inl (New (''couldn't find transport '' @ transportName)))"

text \<open>
  \<open>GetConnection\<close> returns the channel together with the calls of a driver's
  \<open>GetConnection\<close> that it made: the protocol code of the driver and the arguments.
  Inside the branch for an opaque URL the variable \<open>connectionUrl\<close> is declared anew by
  \<open>connectionUrl, err := url.Parse(connectionUrl.Opaque)\<close>; when that parse fails the
  new variable is nil, and the log statement of the error branch reads
  \<open>connectionUrl.Opaque\<close> through it.
\<close>

definition PlcDriverManger_GetConnection ::
  "(string \<Rightarrow> error + URL) \<Rightarrow> (URL \<Rightarrow> options) \<Rightarrow> 'ti PlcDriverManger \<Rightarrow> string \<Rightarrow>
   (channel \<times> (string \<times> URL \<times> options) list) outcome" where
  "PlcDriverManger_GetConnection url_Parse url_Query m connectionString =
     (case url_Parse connectionString of
        Inl err \<Rightarrow> Return (single_error (Wrap err ''error parsing connection string''), [])
      | Inr connectionUrl \<Rightarrow>
          (let configOptions = url_Query connectionUrl;
               driverName = Scheme connectionUrl
           in case GetDriver m driverName of
                Inl err \<Rightarrow>
                  Return (single_error (Wrap err ''error getting driver for connection string''), [])
              | Inr driver \<Rightarrow>
                  (case (if length (Opaque connectionUrl) > 0
                         then (case url_Parse (Opaque connectionUrl) of
                                 Inl err \<Rightarrow> None
                               | Inr connectionUrl' \<Rightarrow>
                                   Some (Scheme connectionUrl', Host connectionUrl'))
                         else Some (GetDefaultTransport driver, Host connectionUrl)) of
                     None \<Rightarrow> Panic NilPointerDereference
                   | Some (transportName, transportConnectionString) \<Rightarrow>
                       if transportName = ''''
                       then Return (single_error
                              (New ''no transport specified and no default defined by driver''), [])
                       else
                         (let transportUrl = \<lparr>Scheme = transportName, Opaque = '''',
                                               Host = transportConnectionString, RawQuery = ''''\<rparr>
                          in Return (GetConnection driver transportUrl (transports m) configOptions,
                                     [(GetProtocolCode driver, transportUrl, configOptions)])))))"

text \<open>
  The operations of the manager and the manager they leave behind. Only the two
  registrations assign into a map; the other methods read.
\<close>

datatype 'ti manager_op =
    Op_RegisterDriver "'ti PlcDriver"
  | Op_ListDriverNames
  | Op_GetDriver string
  | Op_RegisterTransport "'ti Transport"
  | Op_ListTransportNames
  | Op_GetTransport string
  | Op_GetConnection string
  | Op_Discover

fun apply_op :: "'ti PlcDriverManger \<Rightarrow> 'ti manager_op \<Rightarrow> 'ti PlcDriverManger" where
  "apply_op m (Op_RegisterDriver d) =
     (case RegisterDriver m (Some d) of Return m' \<Rightarrow> m' | Panic p \<Rightarrow> m)"
| "apply_op m (Op_RegisterTransport t) =
     (case RegisterTransport m (Some t) of Return m' \<Rightarrow> m' | Panic p \<Rightarrow> m)"
| "apply_op m Op_ListDriverNames = m"
| "apply_op m (Op_GetDriver driverName) = m"
| "apply_op m Op_ListTransportNames = m"
| "apply_op m (Op_GetTransport transportName) = m"
| "apply_op m (Op_GetConnection connectionString) = m"
| "apply_op m Op_Discover = m"

text \<open>
  What Go's \<open>url.Parse\<close> and \<open>URL.Query\<close> return on five connection strings.
\<close>

definition example_url_Parse :: "string \<Rightarrow> error + URL" where
  "example_url_Parse rawURL =
     (if rawURL = ''s7://10.0.0.1''
      then Inr \<lparr>Scheme = ''s7'', Opaque = '''', Host = ''10.0.0.1'', RawQuery = ''''\<rparr>
      else if rawURL = ''s7:tcp://10.0.0.1:102?rack=0&slot=1''
      then Inr \<lparr>Scheme = ''s7'', Opaque = ''tcp://10.0.0.1:102'', Host = '''',
                RawQuery = ''rack=0&slot=1''\<rparr>
      else if rawURL = ''tcp://10.0.0.1:102''
      then Inr \<lparr>Scheme = ''tcp'', Opaque = '''', Host = ''10.0.0.1:102'', RawQuery = ''''\<rparr>
      else if rawURL = ''xyz://host''
      then Inr \<lparr>Scheme = ''xyz'', Opaque = '''', Host = ''host'', RawQuery = ''''\<rparr>
      else if rawURL = ''raw://host''
      then Inr \<lparr>Scheme = ''raw'', Opaque = '''', Host = ''host'', RawQuery = ''''\<rparr>
      else Inl (New ''parse error''))"

definition example_url_Query :: "URL \<Rightarrow> options" where
  "example_url_Query u =
     (if RawQuery u = ''rack=0&slot=1''
      then [''rack'' \<mapsto> [''0''], ''slot'' \<mapsto> [''1'']]
      else Map.empty)"

text \<open>Example drivers, transports and environments.\<close>

definition example_PlcDriver :: "string \<Rightarrow> string \<Rightarrow> unit PlcDriver" where
  "example_PlcDriver code defaultTransport =
     \<lparr>GetProtocolCode = code, GetProtocolName = code, GetDefaultTransport = defaultTransport,
      GetConnection = (\<lambda>transportUrl transports options.
         [NewPlcConnectionConnectResult None None]),
      SupportsDiscovery = False\<rparr>"

definition example_manager :: "unit PlcDriverManger" where
  "example_manager =
     \<lparr>drivers = [''s7'' \<mapsto> example_PlcDriver ''s7'' ''tcp'',
                 ''raw'' \<mapsto> example_PlcDriver ''raw'' ''''],
      transports = Map.empty\<rparr>"

definition example_Transport :: "(error + unit) \<Rightarrow> unit Transport" where
  "example_Transport r =
     \<lparr>GetTransportCode = ''tcp'', GetTransportName = ''TCP/IP Socket Transport'',
      CreateTransportInstance = (\<lambda>transportUrl options. r)\<rparr>"

definition example_env ::
  "(error + unit) \<Rightarrow> error option \<Rightarrow> (unit, unit, unit, unit, unit, unit) S7_env" where
  "example_env cfg ctxErr =
     \<lparr>ParseFromOptions = (\<lambda>options. cfg),
      NewDriverContext = (\<lambda>configuration. ((), ctxErr)),
      NewConnection = (\<lambda>codec configuration driverContext fieldHandler tm. ()),
      Connect = (\<lambda>connection. [NewPlcConnectionConnectResult None None]),
      URL_GoString = (\<lambda>u. Scheme u @ ''://'' @ Host u),
      URL_String = (\<lambda>u. Scheme u @ ''://'' @ Host u)\<rparr>"

definition example_Driver :: "(unit, unit) Driver" where
  "example_Driver = \<lparr>fieldHandler = (), tm = ()\<rparr>"

definition tcp_url :: URL where
  "tcp_url = \<lparr>Scheme = ''tcp'', Opaque = '''', Host = ''10.0.0.1'', RawQuery = ''''\<rparr>"


section \<open>Properties of the bit buffers\<close>

lemma length_to_bl: "length (to_bl (w::'a::len word)) = LENGTH('a)"
  by (simp add: to_bl_def)

lemma of_bl_to_bl: "of_bl (to_bl w) = w"
  by (simp add: to_bl_def of_bl_def rev_map horner_sum_bit_eq_take_bit)

lemma to_bl_of_bl:
  assumes "length bs = LENGTH('a::len)"
  shows "to_bl (of_bl bs :: 'a word) = bs"
proof (rule nth_equalityI)
  show "length (to_bl (of_bl bs :: 'a word)) = length bs"
    using assms by (simp add: length_to_bl)
next
  fix i assume "i < length (to_bl (of_bl bs :: 'a word))"
  then have i: "i < LENGTH('a)" by (simp add: length_to_bl)
  then show "to_bl (of_bl bs :: 'a word) ! i = bs ! i"
    using assms
    by (simp add: to_bl_def of_bl_def rev_nth bit_horner_sum_bit_word_iff)
qed

lemma bits_of_bytes_of_bits:
  "8 dvd length bs \<Longrightarrow> bits_of_bytes (bytes_of_bits bs) = bs"
proof (induction bs rule: bytes_of_bits.induct)
  case (1 a b c d e f g h rest)
  have "length (a # b # c # d # e # f # g # h # rest) = length rest + 8" by simp
  with "1.prems" have "8 dvd length rest" by (simp only: dvd_add_triv_right_iff)
  moreover have "to_bl (of_bl [a, b, c, d, e, f, g, h] :: 8 word) = [a, b, c, d, e, f, g, h]"
    by (rule to_bl_of_bl) simp
  ultimately show ?case using 1 by (simp add: bits_of_bytes_def)
qed (simp_all add: bits_of_bytes_def, presburger+)

lemma length_bits_of_bytes: "length (bits_of_bytes bs) = 8 * length bs"
  by (induction bs) (simp_all add: bits_of_bytes_def length_to_bl)

lemma bits_of_bytes_append: "bits_of_bytes (xs @ ys) = bits_of_bytes xs @ bits_of_bytes ys"
  by (simp add: bits_of_bytes_def)

lemma WriteUint32_32: "WriteUint32 32 v io = (None, write_bits (to_bl v) io)"
proof -
  have "unat v < 2 ^ 32" using unsigned_less [of v] by simp
  then show ?thesis by (simp add: WriteUint32_def uint_bits_def)
qed

lemma WriteInt8_8: "WriteInt8 8 v io = (None, write_bits (to_bl v) io)"
proof -
  have "- (2 ^ 7) \<le> sint v" "sint v < 2 ^ 7"
    using sint_ge [of v] sint_lt [of v] by simp_all
  then show ?thesis by (simp add: WriteInt8_def sint_bits_def)
qed

lemma read_bits_at:
  assumes "bits_of_bytes (rb_data io) = pre @ bs @ post" and "rb_pos io = length pre"
  shows "read_bits (length bs) io = (Inr bs, io\<lparr>rb_pos := length pre + length bs\<rparr>)"
proof -
  have "8 * length (rb_data io) = length pre + length bs + length post"
    using assms(1) length_bits_of_bytes [of "rb_data io"] by simp
  then show ?thesis
    using assms by (simp add: read_bits_def)
qed

lemma ReadUint32_at:
  assumes "bits_of_bytes (rb_data io) = pre @ to_bl (v::u32) @ post" and "rb_pos io = length pre"
  shows "ReadUint32 32 io = (Inr v, io\<lparr>rb_pos := length pre + 32\<rparr>)"
  using read_bits_at [OF assms] by (simp add: ReadUint32_def length_to_bl of_bl_to_bl)

lemma ReadInt8_at:
  assumes "bits_of_bytes (rb_data io) = pre @ to_bl (v::i8) @ post" and "rb_pos io = length pre"
  shows "ReadInt8 8 io = (Inr v, io\<lparr>rb_pos := length pre + 8\<rparr>)"
  using read_bits_at [OF assms]
  by (simp add: ReadInt8_def length_to_bl of_bl_to_bl signed_of_bl_def)

section \<open>AdsNotificationSample: what Serialize writes and what Parse reads back\<close>

lemma Serialize_loop_eq:
  "AdsNotificationSample_Serialize_loop ds io = (None, write_bits (bits_of_bytes ds) io)"
  by (induction ds arbitrary: io)
     (simp_all add: WriteInt8_8 write_bits_def bits_of_bytes_def)

lemma Serialize_eq:
  "AdsNotificationSample_Serialize m io =
     (None, write_bits (to_bl (NotificationHandle m) @ to_bl (SampleSize m) @
                        bits_of_bytes (Data m)) io)"
  by (simp add: AdsNotificationSample_Serialize_def WriteUint32_32 Serialize_loop_eq write_bits_def)

lemma of_nat_u16_less:
  assumes "c < unat (n::u16)"
  shows "(of_nat c :: u16) < n" and "unat (of_nat c :: u16) = c"
proof -
  have "unat n < 2 ^ 16" using unsigned_less [of n] by simp
  with assms have "c < 2 ^ 16" by simp
  then show u: "unat (of_nat c :: u16) = c" by (simp add: unat_of_nat)
  with assms show "(of_nat c :: u16) < n" by (simp add: word_less_nat_alt)
qed

text \<open>
  The count loop, started at item \<open>c\<close> on a buffer that holds the items still to be
  read at the cursor, overwrites the positions \<open>c\<close> up to \<open>n\<close> of \<open>data\<close> with them.
\<close>

lemma Parse_loop_at:
  assumes "bits_of_bytes (rb_data io) = pre @ bits_of_bytes items @ post"
    and "rb_pos io = length pre"
    and "c + length items = unat n"
    and "unat n \<le> length data"
  shows "AdsNotificationSampleParse_loop (of_nat c) n data io =
           (Inr (take c data @ items @ drop (unat n) data),
            io\<lparr>rb_pos := length pre + 8 * length items\<rparr>)"
  using assms
proof (induction items arbitrary: c data pre io)
  case Nil
  then have "(of_nat c :: u16) = n" by simp
  then show ?case using Nil by (subst AdsNotificationSampleParse_loop.simps) simp
next
  case (Cons x xs)
  from Cons.prems(3) have c: "c < unat n" by simp
  note lt = of_nat_u16_less [OF c]
  have rd: "ReadInt8 8 io = (Inr x, io\<lparr>rb_pos := length pre + 8\<rparr>)"
    using Cons.prems(1,2) by (intro ReadInt8_at [where post = "bits_of_bytes xs @ post"])
      (simp_all add: bits_of_bytes_def)
  let ?io' = "io\<lparr>rb_pos := length pre + 8\<rparr>"
  have ih: "AdsNotificationSampleParse_loop (of_nat (Suc c)) n (data[c := x]) ?io' =
           (Inr (take (Suc c) (data[c := x]) @ xs @ drop (unat n) (data[c := x])),
            ?io'\<lparr>rb_pos := length (pre @ to_bl x) + 8 * length xs\<rparr>)"
    using Cons.prems
    by (intro Cons.IH) (simp_all add: bits_of_bytes_def length_to_bl)
  have len: "c < length data" using c Cons.prems(4) by simp
  have tk: "take (Suc c) (data[c := x]) = take c data @ [x]"
    using len by (simp add: take_Suc_conv_app_nth)
  have dr: "drop (unat n) (data[c := x]) = drop (unat n) data"
    using c by simp
  have step: "AdsNotificationSampleParse_loop (of_nat c) n data io =
      AdsNotificationSampleParse_loop (of_nat (Suc c)) n (data[c := x]) ?io'"
    by (subst AdsNotificationSampleParse_loop.simps) (simp add: lt rd add.commute)
  show ?case
    unfolding step ih tk dr by (simp add: length_to_bl)
qed

lemma Ads_wire_bits:
  "bits_of_bytes (GetBytes (snd (AdsNotificationSample_Serialize m NewWriteBuffer))) =
     to_bl (NotificationHandle m) @ to_bl (SampleSize m) @ bits_of_bytes (Data m)"
proof -
  have "8 dvd length (to_bl (NotificationHandle m) @ to_bl (SampleSize m) @ bits_of_bytes (Data m))"
    by (simp add: length_to_bl length_bits_of_bytes)
  then show ?thesis
    by (simp add: Serialize_eq GetBytes_def NewWriteBuffer_def write_bits_def
        bits_of_bytes_of_bits)
qed

text \<open>
  Parsing what \<open>Serialize\<close> wrote for a sample whose \<open>SampleSize\<close> is the length of
  \<open>Data\<close>: the loop reads \<open>uint16(sampleSize)\<close> items, the other items of the result
  keep the zero that \<open>make\<close> gave them, and the cursor stops after the items read.
\<close>

lemma Ads_parse_serialize:
  assumes wf: "unat (SampleSize m) = length (Data m)"
  shows "AdsNotificationSampleParse
           (NewReadBuffer (GetBytes (snd (AdsNotificationSample_Serialize m NewWriteBuffer)))) =
         (Inr (m\<lparr>Data := take (length (Data m) mod 65536) (Data m) @
                          replicate (length (Data m) - length (Data m) mod 65536) 0\<rparr>),
          \<lparr>rb_data = GetBytes (snd (AdsNotificationSample_Serialize m NewWriteBuffer)),
           rb_pos = 64 + 8 * (length (Data m) mod 65536)\<rparr>)"
proof -
  let ?bytes = "GetBytes (snd (AdsNotificationSample_Serialize m NewWriteBuffer))"
  let ?k = "length (Data m) mod 65536"
  let ?h = "NotificationHandle m" and ?s = "SampleSize m"
  let ?io0 = "NewReadBuffer ?bytes"
  let ?io1 = "?io0\<lparr>rb_pos := 32\<rparr>"
  let ?io2 = "?io0\<lparr>rb_pos := 64\<rparr>"
  have bits: "bits_of_bytes ?bytes = to_bl ?h @ to_bl ?s @ bits_of_bytes (Data m)"
    by (rule Ads_wire_bits)
  have r1: "ReadUint32 32 ?io0 = (Inr ?h, ?io1)"
    using ReadUint32_at [of ?io0 "[]" ?h "to_bl ?s @ bits_of_bytes (Data m)"] bits
    by (simp add: NewReadBuffer_def)
  have r2: "ReadUint32 32 ?io1 = (Inr ?s, ?io2)"
    using ReadUint32_at [of ?io1 "to_bl ?h" ?s "bits_of_bytes (Data m)"] bits
    by (simp add: NewReadBuffer_def length_to_bl)
  have n: "unat (ucast ?s :: u16) = ?k"
    using wf by (simp add: unsigned_ucast_eq take_bit_eq_mod)
  have split: "bits_of_bytes (Data m) =
      bits_of_bytes (take ?k (Data m)) @ bits_of_bytes (drop ?k (Data m))"
    by (simp flip: bits_of_bytes_append)
  have r3: "AdsNotificationSampleParse_loop (of_nat 0) (ucast ?s)
              (replicate (unat ?s) 0) ?io2 =
            (Inr (take 0 (replicate (unat ?s) 0) @ take ?k (Data m) @
                  drop (unat (ucast ?s :: u16)) (replicate (unat ?s) 0)),
             ?io2\<lparr>rb_pos := length (to_bl ?h @ to_bl ?s) + 8 * length (take ?k (Data m))\<rparr>)"
  proof (rule Parse_loop_at)
    show "bits_of_bytes (rb_data ?io2) =
        (to_bl ?h @ to_bl ?s) @ bits_of_bytes (take ?k (Data m)) @
        bits_of_bytes (drop ?k (Data m))"
      using bits split by (simp add: NewReadBuffer_def)
    show "rb_pos ?io2 = length (to_bl ?h @ to_bl ?s)"
      by (simp add: length_to_bl)
    show "0 + length (take ?k (Data m)) = unat (ucast ?s :: u16)"
      using n by simp
    show "unat (ucast ?s :: u16) \<le> length (replicate (unat ?s) (0::i8))"
      using n wf by simp
  qed
  have k: "?k \<le> length (Data m)" by simp
  show ?thesis
    unfolding AdsNotificationSampleParse_def r1 using r2 r3 n wf k
    by (simp add: NewAdsNotificationSample_def NewReadBuffer_def length_to_bl min_absorb2)
qed

text \<open>
  Below 65536 items the loop bound is the item count, and parsing gives the sample back
  with every bit of the output consumed.
\<close>

lemma AdsNotificationSample_roundtrip_below_65536:
  assumes "unat (SampleSize m) = length (Data m)" and "length (Data m) < 65536"
  shows "AdsNotificationSampleParse
           (NewReadBuffer (GetBytes (snd (AdsNotificationSample_Serialize m NewWriteBuffer)))) =
         (Inr m, \<lparr>rb_data = GetBytes (snd (AdsNotificationSample_Serialize m NewWriteBuffer)),
                  rb_pos = 64 + 8 * length (Data m)\<rparr>)"
  using Ads_parse_serialize [OF assms(1)] assms(2) by simp



section \<open>COTPParameter: parsing what Serialize wrote\<close>

lemma bits_of_bytes_of_bits_pad:
  "bits_of_bytes (bytes_of_bits bs) = bs @ replicate ((8 - length bs mod 8) mod 8) False"
proof (induction bs rule: bytes_of_bits.induct)
  case (1 a b c d e f g h rest)
  have "to_bl (of_bl [a, b, c, d, e, f, g, h] :: 8 word) = [a, b, c, d, e, f, g, h]"
    by (rule to_bl_of_bl) simp
  moreover have "length (a # b # c # d # e # f # g # h # rest) mod 8 = length rest mod 8"
    by simp
  ultimately show ?case using 1 by (simp add: bits_of_bytes_def)
qed (simp_all add: bits_of_bytes_def to_bl_of_bl)

lemma WriteUint8_8: "WriteUint8 8 v io = (None, write_bits (to_bl v) io)"
proof -
  have "unat v < 2 ^ 8" using unsigned_less [of v] by simp
  then show ?thesis by (simp add: WriteUint8_def uint_bits_def)
qed

lemma ReadUint8_at:
  assumes "bits_of_bytes (rb_data io) = pre @ to_bl (v::u8) @ post" and "rb_pos io = length pre"
  shows "ReadUint8 8 io = (Inr v, io\<lparr>rb_pos := length pre + 8\<rparr>)"
  using read_bits_at [OF assms] by (simp add: ReadUint8_def length_to_bl of_bl_to_bl)

lemma COTPParameter_switch_ParameterType: "COTPParameter_switch (ParameterType t) = Some t"
  by (cases t) (simp_all add: COTPParameter_switch_def)

lemma COTPParameter_Serialize_eq:
  assumes child: "COTPParameter_Child m = Some (t, p)"
    and ser: "Child_ser t p (write_bits (to_bl (ParameterType t) @
                 to_bl ((ucast ((8 + 8 + L t p) div 8) :: u8) - 2)) io) = (None, io')"
  shows "COTPParameter_Serialize L Child_ser m io = Return (None, io')"
  using assms
  by (simp add: COTPParameter_Serialize_def COTPParameter_SerializeParent_def
      COTPParameter_LengthInBytes_def COTPParameter_LengthInBits_def WriteUint8_8
      write_bits_def)

text \<open>
  A \<open>COTPParameter\<close> with a child attached, whose child writes the bits \<open>bs\<close> and whose
  parser reads these bits back as the child: \<open>Serialize\<close> succeeds, and
  \<open>COTPParameterParse\<close> on the bytes written returns the parameter, with the cursor after
  the two header bytes and the bits of the child. The switch of the parser selects the
  sub-type whose \<open>ParameterType\<close> was written, and the implicit length is read and not
  used.
\<close>

lemma COTPParameter_roundtrip:
  fixes m :: "'p COTPParameter"
  assumes child: "COTPParameter_Child m = Some (t, p)"
    and ser: "\<And>io. Child_ser t p io = (None, write_bits bs io)"
    and par: "\<And>io pre post.
        bits_of_bytes (rb_data io) = pre @ bs @ post \<Longrightarrow> rb_pos io = length pre \<Longrightarrow>
        ChildParse t io (if t = COTPParameterDisconnectAdditionalInformation
                         then Some rest else None) =
          (Inr p, io\<lparr>rb_pos := length pre + length bs\<rparr>)"
  shows "\<exists>wb. COTPParameter_Serialize L Child_ser m NewWriteBuffer = Return (None, wb) \<and>
           COTPParameterParse ChildParse (NewReadBuffer (GetBytes wb)) rest =
             (Return (Inr m), \<lparr>rb_data = GetBytes wb, rb_pos = 8 + 8 + length bs\<rparr>)"
proof -
  let ?pt = "ParameterType t"
  let ?pl = "(ucast ((8 + 8 + L t p) div 8) :: u8) - 2"
  let ?bits = "to_bl ?pt @ to_bl ?pl @ bs"
  let ?wb = "write_bits ?bits NewWriteBuffer"
  let ?pad = "replicate ((8 - (16 + length bs) mod 8) mod 8) False"
  let ?io0 = "NewReadBuffer (GetBytes ?wb)"
  have s: "COTPParameter_Serialize L Child_ser m NewWriteBuffer = Return (None, ?wb)"
    by (rule COTPParameter_Serialize_eq [OF child]) (simp add: ser write_bits_def)
  have bits: "bits_of_bytes (GetBytes ?wb) = to_bl ?pt @ to_bl ?pl @ bs @ ?pad"
  proof -
    have g: "GetBytes ?wb = bytes_of_bits ?bits"
      by (simp add: GetBytes_def write_bits_def NewWriteBuffer_def)
    have l: "length ?bits = 16 + length bs"
      by (simp add: length_to_bl)
    have "bits_of_bytes (bytes_of_bits ?bits) =
        ?bits @ replicate ((8 - length ?bits mod 8) mod 8) False"
      by (rule bits_of_bytes_of_bits_pad)
    then show ?thesis
      unfolding g l by simp
  qed
  have r1: "ReadUint8 8 ?io0 = (Inr ?pt, ?io0\<lparr>rb_pos := 8\<rparr>)"
    using ReadUint8_at [of ?io0 "[]" ?pt "to_bl ?pl @ bs @ ?pad"] bits
    by (simp add: NewReadBuffer_def)
  have r2: "ReadUint8 8 (?io0\<lparr>rb_pos := 8\<rparr>) = (Inr ?pl, ?io0\<lparr>rb_pos := 16\<rparr>)"
    using ReadUint8_at [of "?io0\<lparr>rb_pos := 8\<rparr>" "to_bl ?pt" ?pl "bs @ ?pad"] bits
    by (simp add: NewReadBuffer_def length_to_bl)
  have r3: "ChildParse t (?io0\<lparr>rb_pos := 16\<rparr>)
              (if t = COTPParameterDisconnectAdditionalInformation then Some rest else None) =
            (Inr p, ?io0\<lparr>rb_pos := 16\<rparr>\<lparr>rb_pos := length (to_bl ?pt @ to_bl ?pl) + length bs\<rparr>)"
    by (rule par [where post = ?pad])
       (use bits in \<open>simp_all add: NewReadBuffer_def length_to_bl\<close>)
  have m: "m = \<lparr>COTPParameter_Child = Some (t, p)\<rparr>"
    using child by (cases m) simp
  have "COTPParameterParse ChildParse ?io0 rest =
      (Return (Inr m), \<lparr>rb_data = GetBytes ?wb, rb_pos = 8 + 8 + length bs\<rparr>)"
    unfolding COTPParameterParse_def r1 using r2 r3 m
    by (simp add: COTPParameter_switch_ParameterType NewReadBuffer_def length_to_bl)
  with s show ?thesis by blast
qed

section \<open>ApduDataExt: the switch on the discriminator\<close>

lemma ApduDataExt_switch_unlisted:
  "\<forall>v \<in> set [0x04, 0x05, 0x06, 0x07, 0x0B, 0x0C, 0x1F, 0x2F, 0x31, 0x32, 0x33, 0x34, 0x35,
              0x36, 0x37, 0x38, 0x39, 0x3A, 0x3B, 0x3C, 0x3D, 0x3E, 0x3F].
     ApduDataExt_switch v = None"
  by (simp add: ApduDataExt_switch_def)

lemma ApduDataExtParse_no_case:
  assumes "ReadUint8 6 io = (Inr extApciType, io1)"
    and "ApduDataExt_switch extApciType = None"
  shows "ApduDataExtParse ChildParse io length' = (Panic NilPointerDereference, io1)"
  using assms by (simp add: ApduDataExtParse_def)

lemma ApduDataExtParse_case:
  assumes "ReadUint8 6 io = (Inr extApciType, io1)"
    and "ApduDataExt_switch extApciType = Some t"
    and "ChildParse t io1 (if ApduDataExt_passes_length t then Some length' else None) =
           (Inr child, io2)"
  shows "ApduDataExtParse ChildParse io length' = (Return (Inr \<lparr>Child = Some (t, child)\<rparr>), io2)"
  using assms by (simp add: ApduDataExtParse_def)

section \<open>Claims on the message models\<close>

text \<open>
  Claim C1. Parsing the bytes that \<open>Serialize\<close> wrote for a well-formed message gives
  the message back. For \<open>AdsNotificationSample\<close> this fails from 65536 items on: the
  sample \<open>sample_65536\<close> has \<open>SampleSize\<close> equal to the length of \<open>Data\<close>, \<open>Serialize\<close>
  succeeds on it, and \<open>AdsNotificationSampleParse\<close> on the bytes written returns without
  error a sample whose 65536 items are all zero, with the cursor after the two header
  fields: the loop bound \<open>uint16(sampleSize)\<close> is 0, so no item is read.
\<close>

theorem C1_parse_serialize_sample_65536:
  "unat (SampleSize sample_65536) = length (Data sample_65536) \<and>
   fst (AdsNotificationSample_Serialize sample_65536 NewWriteBuffer) = None \<and>
   AdsNotificationSampleParse
     (NewReadBuffer (GetBytes (snd (AdsNotificationSample_Serialize sample_65536 NewWriteBuffer)))) =
     (Inr (sample_65536\<lparr>Data := replicate 65536 0\<rparr>),
      \<lparr>rb_data = GetBytes (snd (AdsNotificationSample_Serialize sample_65536 NewWriteBuffer)),
       rb_pos = 64\<rparr>) \<and>
   sample_65536\<lparr>Data := replicate 65536 0\<rparr> \<noteq> sample_65536"
proof -
  have wf: "unat (SampleSize sample_65536) = length (Data sample_65536)"
    by (simp add: sample_65536_def)
  have "length (Data sample_65536) mod 65536 = 0"
    by (simp add: sample_65536_def)
  with Ads_parse_serialize [OF wf] have
    "AdsNotificationSampleParse
       (NewReadBuffer (GetBytes (snd (AdsNotificationSample_Serialize sample_65536 NewWriteBuffer)))) =
     (Inr (sample_65536\<lparr>Data := replicate (length (Data sample_65536)) 0\<rparr>),
      \<lparr>rb_data = GetBytes (snd (AdsNotificationSample_Serialize sample_65536 NewWriteBuffer)),
       rb_pos = 64\<rparr>)"
    by simp
  moreover have "length (Data sample_65536) = 65536"
    by (simp add: sample_65536_def)
  moreover have "sample_65536\<lparr>Data := replicate 65536 0\<rparr> \<noteq> sample_65536"
    by (simp add: sample_65536_def replicate_eq_replicate)
  ultimately show ?thesis
    using wf by (simp add: Serialize_eq)
qed




text \<open>
  Claim C3. For a 6-bit \<open>extApciType\<close> outside the table, the claim has
  \<open>ApduDataExtParse\<close> fail with an error and leave the cursor where it was. On the byte
  \<open>0x10\<close>, whose first six bits are the value \<open>0x04\<close> that the table does not list,
  \<open>ApduDataExtParse\<close> returns no error: it panics on the nil \<open>_parent\<close>, and the cursor
  has moved over the six bits read.
\<close>

theorem C3_unlisted_extApciType_panics:
  "\<forall>ChildParse. ApduDataExtParse ChildParse (NewReadBuffer [0x10]) 0 =
     (Panic NilPointerDereference, \<lparr>rb_data = [0x10], rb_pos = 6\<rparr>)"
proof -
  have "to_bl (0x10 :: u8) = [False, False, False, True, False, False, False, False]"
    by (simp add: to_bl_def upt_conv_Cons bit_Suc)
  then show ?thesis
    by (simp add: ApduDataExtParse_def ReadUint8_def read_bits_def NewReadBuffer_def
        bits_of_bytes_def of_bl_def ApduDataExt_switch_def)
qed


section \<open>Properties of the S7 message codec\<close>

lemma packetSize_take: "6 \<le> k \<Longrightarrow> packetSize (take k buf) = packetSize buf"
  by (simp add: packetSize_def)

lemma packetSize_bound: "unat (packetSize buf) < 2 ^ 32"
  using unsigned_less [of "packetSize buf"] by simp

lemma buffered_num:
  assumes "length buf < 2 ^ 32"
  shows "unat (of_nat (length buf) :: u32) = length buf"
  using assms by (simp add: unat_of_nat)

lemma Receive_buffered_short:
  assumes len: "length buf < 2 ^ 32"
    and short: "length buf < 6 \<or> length buf < unat (packetSize buf)"
  shows "Receive buffered_TransportInstance P buf = (Return (None, None), buf)"
proof (cases "length buf < 6")
  case True
  then have "\<not> (6 :: u32) \<le> of_nat (length buf)"
    using buffered_num [OF len] by (simp add: word_le_nat_alt)
  then show ?thesis
    by (simp add: Receive_def buffered_TransportInstance_def)
next
  case False
  then have six: "(6 :: u32) \<le> of_nat (length buf)"
    using buffered_num [OF len] by (simp add: word_le_nat_alt)
  from False short have "length buf < unat (packetSize buf)" by simp
  then have lt: "(of_nat (length buf) :: u32) < packetSize (take 6 buf)"
    using buffered_num [OF len] by (simp add: word_less_nat_alt packetSize_take)
  from False have pk: "6 \<le> length buf" by simp
  show ?thesis
    using six lt pk by (simp add: Receive_def buffered_TransportInstance_def)
qed

lemma Receive_buffered_complete:
  assumes len: "length buf < 2 ^ 32"
    and six: "6 \<le> length buf"
    and enough: "unat (packetSize buf) \<le> length buf"
  shows "Receive buffered_TransportInstance P buf =
     (case P (NewReadBuffer (take (unat (packetSize buf)) buf)) (ucast (packetSize buf)) of
        Inl err \<Rightarrow> (Return (None, None), drop (unat (packetSize buf)) buf)
      | Inr tcpAdu \<Rightarrow> (Return (Some tcpAdu, None), drop (unat (packetSize buf)) buf))"
proof -
  have six': "(6 :: u32) \<le> of_nat (length buf)"
    using six buffered_num [OF len] by (simp add: word_le_nat_alt)
  have ge: "\<not> (of_nat (length buf) :: u32) < packetSize (take 6 buf)"
    using enough buffered_num [OF len] by (simp add: word_less_nat_alt packetSize_take)
  show ?thesis
    using six six' ge enough
    by (simp add: Receive_def buffered_TransportInstance_def packetSize_take split: sum.splits)
qed

text \<open>
  Claim C4. The claim has \<open>Receive\<close> take the packet length from bytes 2 and 3 of the
  TPKT header, as the total length, after a peek of four bytes. The code peeks six bytes
  and computes the length from bytes 4 and 5 plus 6, under the comment
  \<open>TODO: wrong size for s7\<close>. With the whole 22-byte packet \<open>tpkt_22\<close> buffered, whose
  bytes 2 and 3 say 22, the code computes 4582 and returns no message, whatever the
  packet parser is, and reads nothing.
\<close>

theorem C4_Receive_packet_length_of_tpkt_22:
  "length tpkt_22 = 22 \<and>
   push_bit 8 (ucast (tpkt_22 ! 2)) + ucast (tpkt_22 ! 3) = (22 :: u32) \<and>
   packetSize tpkt_22 = 4582 \<and>
   (\<forall>COTPPacketParse :: ReadBuffer \<Rightarrow> u16 \<Rightarrow> error + 'm.
      Receive buffered_TransportInstance COTPPacketParse tpkt_22 =
        (Return (None, None), tpkt_22))"
proof -
  have "packetSize (take 6 tpkt_22) = 4582"
    by (simp add: packetSize_def tpkt_22_def)
  then have "\<forall>COTPPacketParse :: ReadBuffer \<Rightarrow> u16 \<Rightarrow> error + 'm.
      Receive buffered_TransportInstance COTPPacketParse tpkt_22 =
        (Return (None, None), tpkt_22)"
    by (simp add: Receive_def buffered_TransportInstance_def) (simp add: tpkt_22_def)
  moreover have "length tpkt_22 = 22" by (simp add: tpkt_22_def)
  moreover have "push_bit 8 (ucast (tpkt_22 ! 2)) + ucast (tpkt_22 ! 3) = (22 :: u32)"
    by (simp add: tpkt_22_def)
  moreover have "packetSize tpkt_22 = 4582"
    by (simp add: packetSize_def tpkt_22_def)
  ultimately show ?thesis by simp
qed

text \<open>
  On a transport that buffers bytes as the specification describes, with the packet
  length as \<open>Receive\<close> computes it: when fewer than six bytes, or fewer bytes than the
  computed packet length, are buffered, \<open>Receive\<close> returns no message and no error and
  leaves the buffer as it was. For a packet \<open>pkt\<close> whose length is the computed length
  and which the packet parser accepts as \<open>msg\<close>: with only the first \<open>k\<close> bytes
  buffered, \<open>k\<close> less than the length, \<open>Receive\<close> returns nothing and consumes nothing,
  and with all bytes buffered it returns \<open>msg\<close> and leaves the buffer empty.
\<close>

lemma Receive_buffered_partial_then_complete:
  "(length buf < 2 ^ 32 \<and> (length buf < 6 \<or> length buf < unat (packetSize buf)) \<longrightarrow>
      Receive buffered_TransportInstance COTPPacketParse buf = (Return (None, None), buf)) \<and>
   (6 \<le> length pkt \<and> length pkt = unat (packetSize pkt) \<and> k < length pkt \<and>
    COTPPacketParse (NewReadBuffer pkt) (ucast (packetSize pkt)) = Inr msg \<longrightarrow>
      Receive buffered_TransportInstance COTPPacketParse (take k pkt) =
        (Return (None, None), take k pkt) \<and>
      Receive buffered_TransportInstance COTPPacketParse pkt = (Return (Some msg, None), []))"
proof (intro conjI impI)
  assume "length buf < 2 ^ 32 \<and> (length buf < 6 \<or> length buf < unat (packetSize buf))"
  then show "Receive buffered_TransportInstance COTPPacketParse buf = (Return (None, None), buf)"
    using Receive_buffered_short by blast
next
  assume a: "6 \<le> length pkt \<and> length pkt = unat (packetSize pkt) \<and> k < length pkt \<and>
    COTPPacketParse (NewReadBuffer pkt) (ucast (packetSize pkt)) = Inr msg"
  then have len: "length pkt < 2 ^ 32" using packetSize_bound [of pkt] by simp
  have klen: "length (take k pkt) < 2 ^ 32" using len a by simp
  have "length (take k pkt) < 6 \<or> length (take k pkt) < unat (packetSize (take k pkt))"
  proof (cases "k < 6")
    case True then show ?thesis by (simp add: min_def)
  next
    case False
    then have "packetSize (take k pkt) = packetSize pkt" by (simp add: packetSize_take)
    with a show ?thesis by simp
  qed
  with klen show "Receive buffered_TransportInstance COTPPacketParse (take k pkt) =
        (Return (None, None), take k pkt)"
    by (rule Receive_buffered_short)
  show "Receive buffered_TransportInstance COTPPacketParse pkt = (Return (Some msg, None), [])"
    using Receive_buffered_complete [OF len, of COTPPacketParse] a by simp
qed

lemma Receive_buffered_partial_then_complete_example:
  "length [3, 0, 0 :: u8] < 6 \<and>
   length [3, 0, 0, 8, 0, 2, 0xAA, 0xBB :: u8] = unat (packetSize [3, 0, 0, 8, 0, 2, 0xAA, 0xBB]) \<and>
   Receive buffered_TransportInstance bytes_parser [3, 0, 0] = (Return (None, None), [3, 0, 0]) \<and>
   Receive buffered_TransportInstance bytes_parser (take 3 [3, 0, 0, 8, 0, 2, 0xAA, 0xBB]) =
     (Return (None, None), take 3 [3, 0, 0, 8, 0, 2, 0xAA, 0xBB]) \<and>
   Receive buffered_TransportInstance bytes_parser [3, 0, 0, 8, 0, 2, 0xAA, 0xBB] =
     (Return (Some [3, 0, 0, 8, 0, 2, 0xAA, 0xBB], None), [])"
proof -
  let ?pkt = "[3, 0, 0, 8, 0, 2, 0xAA, 0xBB :: u8]"
  have h1: "length [3, 0, 0 :: u8] < 2 ^ 32 \<and>
      (length [3, 0, 0 :: u8] < 6 \<or> length [3, 0, 0 :: u8] < unat (packetSize [3, 0, 0]))"
    by simp
  have ps: "length ?pkt = unat (packetSize ?pkt)"
    by (simp add: packetSize_def)
  have h2: "6 \<le> length ?pkt \<and> length ?pkt = unat (packetSize ?pkt) \<and> 3 < length ?pkt \<and>
      bytes_parser (NewReadBuffer ?pkt) (ucast (packetSize ?pkt)) = Inr ?pkt"
    using ps by (simp add: bytes_parser_def NewReadBuffer_def)
  have h0: "length [3, 0, 0 :: u8] < 6"
    by simp
  from Receive_buffered_partial_then_complete [of "[3, 0, 0]" bytes_parser ?pkt 3 ?pkt] h0 h1 h2 ps
  show ?thesis by blast
qed

text \<open>
  Claim C5. With fewer bytes buffered than the packet needs, \<open>Receive\<close> returns no
  message and consumes nothing; once the remaining bytes of the packet have arrived, the
  claim has \<open>Receive\<close> return the parsed message and drain the buffer. On the 22-byte
  TPKT packet \<open>tpkt_22\<close>, with the transport that buffers bytes as the specification
  describes: with the first 3 bytes buffered \<open>Receive\<close> returns no message and leaves the
  3 bytes; with the other 19 bytes arrived and all 22 bytes buffered, \<open>Receive\<close> again
  returns no message, whatever the packet parser is, and leaves all 22 bytes in the
  buffer, since the size it computes from bytes 4 and 5 is 4582.
\<close>

theorem C5_Receive_tpkt_22_partial_then_complete:
  "length (take 3 tpkt_22) = 3 \<and> length (drop 3 tpkt_22) = 19 \<and>
   take 3 tpkt_22 @ drop 3 tpkt_22 = tpkt_22 \<and>
   (\<forall>COTPPacketParse :: ReadBuffer \<Rightarrow> u16 \<Rightarrow> error + 'm.
      Receive buffered_TransportInstance COTPPacketParse (take 3 tpkt_22) =
        (Return (None, None), take 3 tpkt_22)) \<and>
   (\<forall>COTPPacketParse :: ReadBuffer \<Rightarrow> u16 \<Rightarrow> error + 'm.
      Receive buffered_TransportInstance COTPPacketParse (take 3 tpkt_22 @ drop 3 tpkt_22) =
        (Return (None, None), tpkt_22))"
proof -
  have len: "length tpkt_22 = 22"
    by (simp add: tpkt_22_def)
  have size: "unat (packetSize tpkt_22) = 4582"
    by (simp add: packetSize_def tpkt_22_def)
  have part: "Receive buffered_TransportInstance P (take 3 tpkt_22) =
      (Return (None, None), take 3 tpkt_22)" for P :: "ReadBuffer \<Rightarrow> u16 \<Rightarrow> error + 'm"
    by (rule Receive_buffered_short) (simp_all add: len)
  have whole: "Receive buffered_TransportInstance P tpkt_22 = (Return (None, None), tpkt_22)"
    for P :: "ReadBuffer \<Rightarrow> u16 \<Rightarrow> error + 'm"
    by (rule Receive_buffered_short) (simp_all add: len size)
  show ?thesis
    using part whole by (simp add: len)
qed

text \<open>
  Claim C10. \<open>Receive\<close> never returns a non-nil error, for any transport instance and any
  packet parser; and on each failure path (the count of readable bytes fails, fewer than
  six bytes are readable, the peek fails, fewer bytes than the packet size are readable,
  the read fails, the packet parser fails) it returns the pair of nil and nil.
\<close>

theorem C10_Receive_returns_no_error:
  "(\<forall>m e. fst (Receive ti P s) \<noteq> Return (m, Some e)) \<and>
   (GetNumReadableBytes ti s = (Inl err1, s1) \<longrightarrow> Receive ti P s = (Return (None, None), s1)) \<and>
   (GetNumReadableBytes ti s = (Inr num, s1) \<and> num < 6 \<longrightarrow>
      Receive ti P s = (Return (None, None), s1)) \<and>
   (GetNumReadableBytes ti s = (Inr num, s1) \<and> 6 \<le> num \<and>
    PeekReadableBytes ti 6 s1 = (Inl err2, s2) \<longrightarrow>
      Receive ti P s = (Return (None, None), s2)) \<and>
   (GetNumReadableBytes ti s = (Inr num, s1) \<and> 6 \<le> num \<and>
    PeekReadableBytes ti 6 s1 = (Inr data, s2) \<and> 6 \<le> length data \<and> num < packetSize data \<longrightarrow>
      Receive ti P s = (Return (None, None), s2)) \<and>
   (GetNumReadableBytes ti s = (Inr num, s1) \<and> 6 \<le> num \<and>
    PeekReadableBytes ti 6 s1 = (Inr data, s2) \<and> 6 \<le> length data \<and> packetSize data \<le> num \<and>
    Read ti (packetSize data) s2 = (Inl err3, s3) \<longrightarrow>
      Receive ti P s = (Return (None, None), s3)) \<and>
   (GetNumReadableBytes ti s = (Inr num, s1) \<and> 6 \<le> num \<and>
    PeekReadableBytes ti 6 s1 = (Inr data, s2) \<and> 6 \<le> length data \<and> packetSize data \<le> num \<and>
    Read ti (packetSize data) s2 = (Inr data', s3) \<and>
    P (NewReadBuffer data') (ucast (packetSize data)) = Inl err4 \<longrightarrow>
      Receive ti P s = (Return (None, None), s3))"
proof -
  have "\<forall>m e. fst (Receive ti P s) \<noteq> Return (m, Some e)"
    by (simp add: Receive_def split: prod.splits sum.splits)
  then show ?thesis
    by (auto simp: Receive_def not_less)
qed

theorem C10_Receive_returns_no_error_witness:
  "Receive (scripted_TransportInstance (Inl (Code TRUNCATED)) (Inr []) (Inr []))
     bytes_parser () = (Return (None, None), ()) \<and>
   Receive (scripted_TransportInstance (Inr 3) (Inr []) (Inr []))
     bytes_parser () = (Return (None, None), ()) \<and>
   Receive (scripted_TransportInstance (Inr 8) (Inl (Code TRUNCATED)) (Inr []))
     bytes_parser () = (Return (None, None), ()) \<and>
   Receive (scripted_TransportInstance (Inr 8) (Inr [3, 0, 0, 22, 17, 224]) (Inr []))
     bytes_parser () = (Return (None, None), ()) \<and>
   Receive (scripted_TransportInstance (Inr 8) (Inr [3, 0, 0, 8, 0, 2]) (Inl (Code TRUNCATED)))
     bytes_parser () = (Return (None, None), ()) \<and>
   Receive (scripted_TransportInstance (Inr 8) (Inr [3, 0, 0, 8, 0, 2])
              (Inr [3, 0, 0, 8, 0, 2, 0xAA, 0xBB]))
     failing_parser () = (Return (None, None), ())"
proof -
  let ?short = "[3, 0, 0, 22, 17, 224 :: u8]" and ?hdr = "[3, 0, 0, 8, 0, 2 :: u8]"
  let ?pkt = "[3, 0, 0, 8, 0, 2, 0xAA, 0xBB :: u8]"
  let ?t1 = "scripted_TransportInstance (Inl (Code TRUNCATED)) (Inr []) (Inr [])"
  let ?t2 = "scripted_TransportInstance (Inr 3) (Inr []) (Inr [])"
  let ?t3 = "scripted_TransportInstance (Inr 8) (Inl (Code TRUNCATED)) (Inr [])"
  let ?t4 = "scripted_TransportInstance (Inr 8) (Inr ?short) (Inr [])"
  let ?t5 = "scripted_TransportInstance (Inr 8) (Inr ?hdr) (Inl (Code TRUNCATED))"
  let ?t6 = "scripted_TransportInstance (Inr 8) (Inr ?hdr) (Inr ?pkt)"
  have p4: "packetSize ?short = 4582" and p5: "packetSize ?hdr = 8"
    by (simp_all add: packetSize_def)
  have h1: "GetNumReadableBytes ?t1 () = (Inl (Code TRUNCATED), ())"
    by (simp add: scripted_TransportInstance_def)
  have h2: "GetNumReadableBytes ?t2 () = (Inr 3, ()) \<and> (3 :: u32) < 6"
    by (simp add: scripted_TransportInstance_def)
  have h3: "GetNumReadableBytes ?t3 () = (Inr 8, ()) \<and> (6 :: u32) \<le> 8 \<and>
      PeekReadableBytes ?t3 6 () = (Inl (Code TRUNCATED), ())"
    by (simp add: scripted_TransportInstance_def)
  have h4: "GetNumReadableBytes ?t4 () = (Inr 8, ()) \<and> (6 :: u32) \<le> 8 \<and>
      PeekReadableBytes ?t4 6 () = (Inr ?short, ()) \<and> 6 \<le> length ?short \<and>
      8 < packetSize ?short"
    by (simp add: scripted_TransportInstance_def p4)
  have h5: "GetNumReadableBytes ?t5 () = (Inr 8, ()) \<and> (6 :: u32) \<le> 8 \<and>
      PeekReadableBytes ?t5 6 () = (Inr ?hdr, ()) \<and> 6 \<le> length ?hdr \<and>
      packetSize ?hdr \<le> 8 \<and> Read ?t5 (packetSize ?hdr) () = (Inl (Code TRUNCATED), ())"
    by (simp add: scripted_TransportInstance_def p5)
  have h6: "GetNumReadableBytes ?t6 () = (Inr 8, ()) \<and> (6 :: u32) \<le> 8 \<and>
      PeekReadableBytes ?t6 6 () = (Inr ?hdr, ()) \<and> 6 \<le> length ?hdr \<and>
      packetSize ?hdr \<le> 8 \<and> Read ?t6 (packetSize ?hdr) () = (Inr ?pkt, ()) \<and>
      failing_parser (NewReadBuffer ?pkt) (ucast (packetSize ?hdr)) = Inl (Code TRUNCATED)"
    by (simp add: scripted_TransportInstance_def p5 failing_parser_def)
  have c1: "Receive ?t1 bytes_parser () = (Return (None, None), ())"
    using C10_Receive_returns_no_error [where ti = ?t1 and s = "()" and ?s1.0 = "()"
        and ?err1.0 = "Code TRUNCATED" and P = bytes_parser] h1 by blast
  have c2: "Receive ?t2 bytes_parser () = (Return (None, None), ())"
    using C10_Receive_returns_no_error [where ti = ?t2 and s = "()" and ?s1.0 = "()"
        and num = 3 and P = bytes_parser] h2 by blast
  have c3: "Receive ?t3 bytes_parser () = (Return (None, None), ())"
    using C10_Receive_returns_no_error [where ti = ?t3 and s = "()" and ?s1.0 = "()"
        and ?s2.0 = "()" and num = 8 and ?err2.0 = "Code TRUNCATED" and P = bytes_parser] h3
    by blast
  have c4: "Receive ?t4 bytes_parser () = (Return (None, None), ())"
    using C10_Receive_returns_no_error [where ti = ?t4 and s = "()" and ?s1.0 = "()"
        and ?s2.0 = "()" and num = 8 and data = ?short and P = bytes_parser] h4
    by blast
  have c5: "Receive ?t5 bytes_parser () = (Return (None, None), ())"
    using C10_Receive_returns_no_error [where ti = ?t5 and s = "()" and ?s1.0 = "()"
        and ?s2.0 = "()" and ?s3.0 = "()" and num = 8 and data = ?hdr
        and ?err3.0 = "Code TRUNCATED" and P = bytes_parser] h5
    by blast
  have c6: "Receive ?t6 failing_parser () = (Return (None, None), ())"
    using C10_Receive_returns_no_error [where ti = ?t6 and s = "()" and ?s1.0 = "()"
        and ?s2.0 = "()" and ?s3.0 = "()" and num = 8 and data = ?hdr and data' = ?pkt
        and ?err4.0 = "Code TRUNCATED" and P = failing_parser] h6
    by blast
  from c1 c2 c3 c4 c5 c6 show ?thesis by simp
qed


section \<open>Properties of the driver manager\<close>

lemma GetDriver_apply_op:
  assumes "GetDriver m code = Inr d"
  shows "GetDriver (apply_op m op) code = Inr d"
proof -
  from assms have dom: "drivers m code = Some d"
    by (simp add: GetDriver_def split: option.splits)
  show ?thesis
  proof (cases op)
    case (Op_RegisterDriver d')
    show ?thesis
    proof (cases "GetProtocolCode d' \<in> dom (drivers m)")
      case True
      with Op_RegisterDriver assms show ?thesis by (simp add: RegisterDriver_def)
    next
      case False
      with dom have "GetProtocolCode d' \<noteq> code" by auto
      with Op_RegisterDriver False dom show ?thesis
        by (simp add: RegisterDriver_def GetDriver_def)
    qed
  next
    case (Op_RegisterTransport t)
    with dom show ?thesis
      by (simp add: RegisterTransport_def GetDriver_def)
  qed (use assms in simp_all)
qed

lemma GetDriver_apply_ops:
  "GetDriver m code = Inr d \<Longrightarrow> GetDriver (foldl apply_op m ops) code = Inr d"
  by (induction ops arbitrary: m) (simp_all add: GetDriver_apply_op)

text \<open>
  Claim C6. After the connection string is parsed and the driver found: when the opaque
  part of the URL is not empty and parses, the transport is the scheme of the inner URL
  and the host is the host of the inner URL; when the opaque part is empty, the transport
  is the driver's default transport and the host is the host of the outer URL. With a
  transport name that is not empty the driver's \<open>GetConnection\<close> is called once, with the
  transport URL of that scheme and host, and its channel is returned; with an empty
  transport name the channel delivers the single error of no transport and no call of
  the driver's \<open>GetConnection\<close> is made.
\<close>

theorem C6_GetConnection_transport:
  assumes "url_Parse connectionString = Inr connectionUrl"
    and "drivers m (Scheme connectionUrl) = Some driver"
  shows
    "(Opaque connectionUrl \<noteq> '''' \<and> url_Parse (Opaque connectionUrl) = Inr inner \<and>
      Scheme inner \<noteq> '''' \<longrightarrow>
        PlcDriverManger_GetConnection url_Parse url_Query m connectionString =
          Return (GetConnection driver
                    \<lparr>Scheme = Scheme inner, Opaque = '''', Host = Host inner, RawQuery = ''''\<rparr>
                    (transports m) (url_Query connectionUrl),
                  [(GetProtocolCode driver,
                    \<lparr>Scheme = Scheme inner, Opaque = '''', Host = Host inner, RawQuery = ''''\<rparr>,
                    url_Query connectionUrl)])) \<and>
     (Opaque connectionUrl = '''' \<and> GetDefaultTransport driver \<noteq> '''' \<longrightarrow>
        PlcDriverManger_GetConnection url_Parse url_Query m connectionString =
          Return (GetConnection driver
                    \<lparr>Scheme = GetDefaultTransport driver, Opaque = '''',
                     Host = Host connectionUrl, RawQuery = ''''\<rparr>
                    (transports m) (url_Query connectionUrl),
                  [(GetProtocolCode driver,
                    \<lparr>Scheme = GetDefaultTransport driver, Opaque = '''',
                     Host = Host connectionUrl, RawQuery = ''''\<rparr>,
                    url_Query connectionUrl)])) \<and>
     ((Opaque connectionUrl \<noteq> '''' \<and> url_Parse (Opaque connectionUrl) = Inr inner \<and>
       Scheme inner = '''') \<or>
      (Opaque connectionUrl = '''' \<and> GetDefaultTransport driver = '''') \<longrightarrow>
        PlcDriverManger_GetConnection url_Parse url_Query m connectionString =
          Return ([NewPlcConnectionConnectResult None
                     (Some (New ''no transport specified and no default defined by driver''))],
                  []))"
  using assms
  by (auto simp: PlcDriverManger_GetConnection_def GetDriver_def single_error_def Let_def)

theorem C6_GetConnection_transport_witness:
  "PlcDriverManger_GetConnection example_url_Parse example_url_Query example_manager
     ''s7:tcp://10.0.0.1:102?rack=0&slot=1'' =
     Return ([NewPlcConnectionConnectResult None None],
             [(''s7'', \<lparr>Scheme = ''tcp'', Opaque = '''', Host = ''10.0.0.1:102'', RawQuery = ''''\<rparr>,
               [''rack'' \<mapsto> [''0''], ''slot'' \<mapsto> [''1'']])]) \<and>
   PlcDriverManger_GetConnection example_url_Parse example_url_Query example_manager
     ''s7://10.0.0.1'' =
     Return ([NewPlcConnectionConnectResult None None],
             [(''s7'', \<lparr>Scheme = ''tcp'', Opaque = '''', Host = ''10.0.0.1'', RawQuery = ''''\<rparr>,
               Map.empty)]) \<and>
   PlcDriverManger_GetConnection example_url_Parse example_url_Query example_manager
     ''raw://host'' =
     Return ([NewPlcConnectionConnectResult None
                (Some (New ''no transport specified and no default defined by driver''))],
             [])"
proof -
  let ?outer = "\<lparr>Scheme = ''s7'', Opaque = ''tcp://10.0.0.1:102'', Host = '''',
                 RawQuery = ''rack=0&slot=1''\<rparr>"
  let ?inner = "\<lparr>Scheme = ''tcp'', Opaque = '''', Host = ''10.0.0.1:102'', RawQuery = ''''\<rparr>"
  let ?plain = "\<lparr>Scheme = ''s7'', Opaque = '''', Host = ''10.0.0.1'', RawQuery = ''''\<rparr>"
  let ?raw = "\<lparr>Scheme = ''raw'', Opaque = '''', Host = ''host'', RawQuery = ''''\<rparr>"
  have p1: "example_url_Parse ''s7:tcp://10.0.0.1:102?rack=0&slot=1'' = Inr ?outer"
    and p2: "example_url_Parse ''s7://10.0.0.1'' = Inr ?plain"
    and p3: "example_url_Parse ''raw://host'' = Inr ?raw"
    and p4: "example_url_Parse (Opaque ?outer) = Inr ?inner"
    by (simp_all add: example_url_Parse_def)
  have d1: "drivers example_manager (Scheme ?outer) = Some (example_PlcDriver ''s7'' ''tcp'')"
    and d2: "drivers example_manager (Scheme ?plain) = Some (example_PlcDriver ''s7'' ''tcp'')"
    and d3: "drivers example_manager (Scheme ?raw) = Some (example_PlcDriver ''raw'' '''')"
    by (simp_all add: example_manager_def)
  have q1: "example_url_Query ?outer = [''rack'' \<mapsto> [''0''], ''slot'' \<mapsto> [''1'']]"
    and q2: "example_url_Query ?plain = Map.empty"
    by (simp_all add: example_url_Query_def)
  have c1: "PlcDriverManger_GetConnection example_url_Parse example_url_Query example_manager
      ''s7:tcp://10.0.0.1:102?rack=0&slot=1'' =
      Return ([NewPlcConnectionConnectResult None None],
              [(''s7'', ?inner, [''rack'' \<mapsto> [''0''], ''slot'' \<mapsto> [''1'']])])"
    using C6_GetConnection_transport [where url_Parse = example_url_Parse and connectionUrl = ?outer
        and m = example_manager and driver = "example_PlcDriver ''s7'' ''tcp''"
        and inner = ?inner and url_Query = example_url_Query, OF p1 d1] p4 q1
    by (simp add: example_PlcDriver_def)
  have c2: "PlcDriverManger_GetConnection example_url_Parse example_url_Query example_manager
      ''s7://10.0.0.1'' =
      Return ([NewPlcConnectionConnectResult None None], [(''s7'', ?inner\<lparr>Host := ''10.0.0.1''\<rparr>, Map.empty)])"
    using C6_GetConnection_transport [where url_Parse = example_url_Parse and connectionUrl = ?plain
        and m = example_manager and driver = "example_PlcDriver ''s7'' ''tcp''"
        and inner = ?inner and url_Query = example_url_Query, OF p2 d2] q2
    by (simp add: example_PlcDriver_def)
  have c3: "PlcDriverManger_GetConnection example_url_Parse example_url_Query example_manager
      ''raw://host'' =
      Return ([NewPlcConnectionConnectResult None
                 (Some (New ''no transport specified and no default defined by driver''))], [])"
    using C6_GetConnection_transport [where url_Parse = example_url_Parse and connectionUrl = ?raw
        and m = example_manager and driver = "example_PlcDriver ''raw'' ''''"
        and inner = ?inner and url_Query = example_url_Query, OF p3 d3]
    by (simp add: example_PlcDriver_def)
  from c1 c2 c3 show ?thesis by simp
qed

text \<open>
  Claim C7. For a connection string that parses and whose scheme is not a key of the
  driver map, \<open>GetConnection\<close> returns a channel that delivers exactly one result, with no
  connection and an error whose message ends with the name of the driver, and makes no
  call of a driver; \<open>GetDriver\<close> returns an error for every code that is not a key.
\<close>

theorem C7_unknown_driver:
  "(url_Parse connectionString = Inr connectionUrl \<and> drivers m (Scheme connectionUrl) = None \<longrightarrow>
      PlcDriverManger_GetConnection url_Parse url_Query m connectionString =
        Return ([NewPlcConnectionConnectResult None
                   (Some (Wrap (New (''couldn't find driver '' @ Scheme connectionUrl))
                               ''error getting driver for connection string''))], []) \<and>
      Error (Wrap (New (''couldn't find driver '' @ Scheme connectionUrl))
                  ''error getting driver for connection string'') =
        ''error getting driver for connection string: couldn't find driver '' @
        Scheme connectionUrl) \<and>
   (drivers m code = None \<longrightarrow>
      GetDriver m code = Inl (New (''couldn't find driver '' @ code)))"
  by (simp add: PlcDriverManger_GetConnection_def GetDriver_def single_error_def)

theorem C7_unknown_driver_witness:
  "drivers example_manager ''xyz'' = None \<and>
   PlcDriverManger_GetConnection example_url_Parse example_url_Query example_manager
     ''xyz://host'' =
     Return ([NewPlcConnectionConnectResult None
                (Some (Wrap (New ''couldn't find driver xyz'')
                            ''error getting driver for connection string''))], []) \<and>
   Error (Wrap (New ''couldn't find driver xyz'') ''error getting driver for connection string'') =
     ''error getting driver for connection string: couldn't find driver xyz'' \<and>
   GetDriver example_manager ''xyz'' = Inl (New ''couldn't find driver xyz'')"
proof -
  let ?u = "\<lparr>Scheme = ''xyz'', Opaque = '''', Host = ''host'', RawQuery = ''''\<rparr>"
  have p: "example_url_Parse ''xyz://host'' = Inr ?u"
    by (simp add: example_url_Parse_def)
  have d: "drivers example_manager ''xyz'' = None"
    by (simp add: example_manager_def)
  from C7_unknown_driver [of example_url_Parse "''xyz://host''" ?u example_manager
      example_url_Query "''xyz''"] p d
  show ?thesis by simp
qed

text \<open>
  Claim C9. \<open>RegisterDriver\<close> with a driver whose protocol code is already a key returns
  the manager as it was. After \<open>RegisterDriver\<close> with a driver \<open>d\<close> whose code is not yet
  a key, \<open>GetDriver\<close> on that code returns \<open>d\<close>, and it still does after any sequence of
  operations of the manager.
\<close>

theorem C9_RegisterDriver:
  "(drivers m (GetProtocolCode d) \<noteq> None \<longrightarrow> RegisterDriver m (Some d) = Return m) \<and>
   (drivers m (GetProtocolCode d) = None \<longrightarrow>
      RegisterDriver m (Some d) =
        Return (m\<lparr>drivers := (drivers m)(GetProtocolCode d \<mapsto> d)\<rparr>) \<and>
      GetDriver (m\<lparr>drivers := (drivers m)(GetProtocolCode d \<mapsto> d)\<rparr>) (GetProtocolCode d) =
        Inr d \<and>
      (\<forall>ops. GetDriver (foldl apply_op (m\<lparr>drivers := (drivers m)(GetProtocolCode d \<mapsto> d)\<rparr>) ops)
                (GetProtocolCode d) = Inr d))"
proof -
  have "GetDriver (m\<lparr>drivers := (drivers m)(GetProtocolCode d \<mapsto> d)\<rparr>) (GetProtocolCode d) = Inr d"
    by (simp add: GetDriver_def)
  then have "\<forall>ops. GetDriver (foldl apply_op (m\<lparr>drivers := (drivers m)(GetProtocolCode d \<mapsto> d)\<rparr>) ops)
                (GetProtocolCode d) = Inr d"
    by (simp add: GetDriver_apply_ops)
  then show ?thesis
    by (auto simp: RegisterDriver_def GetDriver_def)
qed

theorem C9_RegisterDriver_witness:
  "RegisterDriver example_manager (Some (example_PlcDriver ''s7'' ''udp'')) =
     Return example_manager \<and>
   GetDriver example_manager ''s7'' = Inr (example_PlcDriver ''s7'' ''tcp'') \<and>
   RegisterDriver NewPlcDriverManager (Some (example_PlcDriver ''s7'' ''tcp'')) =
     Return \<lparr>drivers = [''s7'' \<mapsto> example_PlcDriver ''s7'' ''tcp''], transports = Map.empty\<rparr> \<and>
   GetDriver (foldl apply_op
                \<lparr>drivers = [''s7'' \<mapsto> example_PlcDriver ''s7'' ''tcp''], transports = Map.empty\<rparr>
                [Op_RegisterDriver (example_PlcDriver ''s7'' ''udp''), Op_GetDriver ''s7'',
                 Op_RegisterDriver (example_PlcDriver ''raw'' ''''), Op_Discover])
     ''s7'' = Inr (example_PlcDriver ''s7'' ''tcp'')"
proof -
  have k1: "drivers example_manager (GetProtocolCode (example_PlcDriver ''s7'' ''udp'')) \<noteq> None"
    by (simp add: example_manager_def example_PlcDriver_def)
  have k2: "drivers (NewPlcDriverManager :: unit PlcDriverManger)
              (GetProtocolCode (example_PlcDriver ''s7'' ''tcp'')) = None"
    by (simp add: NewPlcDriverManager_def)
  have code: "GetProtocolCode (example_PlcDriver ''s7'' ''tcp'') = ''s7''"
    by (simp add: example_PlcDriver_def)
  have upd: "(NewPlcDriverManager :: unit PlcDriverManger)
               \<lparr>drivers := (drivers NewPlcDriverManager)(''s7'' \<mapsto> example_PlcDriver ''s7'' ''tcp'')\<rparr> =
             \<lparr>drivers = [''s7'' \<mapsto> example_PlcDriver ''s7'' ''tcp''], transports = Map.empty\<rparr>"
    by (simp add: NewPlcDriverManager_def)
  have g: "GetDriver example_manager ''s7'' = Inr (example_PlcDriver ''s7'' ''tcp'')"
    by (simp add: GetDriver_def example_manager_def)
  from C9_RegisterDriver [of example_manager "example_PlcDriver ''s7'' ''udp''"] k1
  have c1: "RegisterDriver example_manager (Some (example_PlcDriver ''s7'' ''udp'')) =
     Return example_manager"
    by blast
  from C9_RegisterDriver [of NewPlcDriverManager "example_PlcDriver ''s7'' ''tcp''"] k2
  have c2: "RegisterDriver NewPlcDriverManager (Some (example_PlcDriver ''s7'' ''tcp'')) =
        Return \<lparr>drivers = [''s7'' \<mapsto> example_PlcDriver ''s7'' ''tcp''], transports = Map.empty\<rparr>"
    and c3: "\<forall>ops. GetDriver (foldl apply_op
          \<lparr>drivers = [''s7'' \<mapsto> example_PlcDriver ''s7'' ''tcp''], transports = Map.empty\<rparr> ops)
          ''s7'' = Inr (example_PlcDriver ''s7'' ''tcp'')"
    unfolding code upd by blast+
  from c1 c2 c3 g show ?thesis by blast
qed


section \<open>Properties of the S7 driver\<close>

text \<open>
  The error that \<open>NewDriverContext\<close> returns is assigned to \<open>err\<close> and not read again:
  \<open>GetConnection\<close> goes on to construct the connection and to connect.
\<close>

lemma Driver_GetConnection_NewDriverContext_error:
  assumes "transports' (Scheme transportUrl) = Some transport"
    and "CreateTransportInstance transport transportUrl (options(''defaultTcpPort'' \<mapsto> [''102''])) =
           Inr transportInstance"
    and "ParseFromOptions env (options(''defaultTcpPort'' \<mapsto> [''102''])) = Inr configuration"
    and "NewDriverContext env configuration = (driverContext, Some err)"
  shows "Driver_GetConnection env m transportUrl transports' options =
           (Connect env (NewConnection env (NewMessageCodec transportInstance) configuration
                           driverContext (fieldHandler m) (tm m)),
            code_order)"
  using assms by (simp add: Driver_GetConnection_def code_order_def)

text \<open>
  Claim C8, as the claim states it, fails. When \<open>ParseFromOptions\<close> fails, the message
  codec has already been constructed: the steps executed are the lookup, the default
  port, the transport instance, the codec and the parse of the configuration, which is
  not an initial part of the order that the claim gives, and the codec, which the claim
  places after the failed step, was constructed.
\<close>

theorem C8_GetConnection_order_counterexample:
  "Driver_GetConnection (example_env (Inl (New ''rack'')) None) example_Driver tcp_url
     [''tcp'' \<mapsto> example_Transport (Inr ())] Map.empty =
     ([NewPlcConnectionConnectResult None (Some (Wrap (New ''rack'') ''Invalid options''))],
      [Step_LookupTransport, Step_InjectDefaultTcpPort, Step_CreateTransportInstance,
       Step_NewMessageCodec, Step_ParseFromOptions]) \<and>
   \<not> prefix [Step_LookupTransport, Step_InjectDefaultTcpPort, Step_CreateTransportInstance,
             Step_NewMessageCodec, Step_ParseFromOptions] specified_order"
  by (simp add: Driver_GetConnection_def example_env_def example_Transport_def tcp_url_def
      single_error_def specified_order_def)

text \<open>
  Claim C8, amended. \<open>GetConnection\<close> performs its steps in this order: look up the
  transport by the scheme of the transport URL, put \<open>defaultTcpPort\<close> = 102 into the
  options, create the transport instance, construct the message codec, parse the
  configuration from the options, build the driver context, construct the connection,
  start \<open>Connect\<close>. When the lookup, the creation of the transport instance or the parse
  of the configuration fails, the channel delivers a single error result and no later
  step is executed; otherwise the channel is the one that \<open>Connect\<close> returns. The default
  transport of the driver is \<open>tcp\<close>.
\<close>

theorem C8_GetConnection_order:
  "(transports' (Scheme transportUrl) = None \<longrightarrow>
      Driver_GetConnection env m transportUrl transports' options =
        ([NewPlcConnectionConnectResult None
            (Some (New (''couldn't find transport for given transport url '' @
                        URL_GoString env transportUrl)))],
         [Step_LookupTransport])) \<and>
   (transports' (Scheme transportUrl) = Some transport \<and>
    CreateTransportInstance transport transportUrl (options(''defaultTcpPort'' \<mapsto> [''102''])) =
      Inl err1 \<longrightarrow>
      Driver_GetConnection env m transportUrl transports' options =
        ([NewPlcConnectionConnectResult None
            (Some (New (''couldn't initialize transport configuration for given transport url '' @
                        URL_String env transportUrl)))],
         [Step_LookupTransport, Step_InjectDefaultTcpPort, Step_CreateTransportInstance])) \<and>
   (transports' (Scheme transportUrl) = Some transport \<and>
    CreateTransportInstance transport transportUrl (options(''defaultTcpPort'' \<mapsto> [''102''])) =
      Inr transportInstance \<and>
    ParseFromOptions env (options(''defaultTcpPort'' \<mapsto> [''102''])) = Inl err2 \<longrightarrow>
      Driver_GetConnection env m transportUrl transports' options =
        ([NewPlcConnectionConnectResult None (Some (Wrap err2 ''Invalid options''))],
         [Step_LookupTransport, Step_InjectDefaultTcpPort, Step_CreateTransportInstance,
          Step_NewMessageCodec, Step_ParseFromOptions])) \<and>
   (transports' (Scheme transportUrl) = Some transport \<and>
    CreateTransportInstance transport transportUrl (options(''defaultTcpPort'' \<mapsto> [''102''])) =
      Inr transportInstance \<and>
    ParseFromOptions env (options(''defaultTcpPort'' \<mapsto> [''102''])) = Inr configuration \<and>
    snd (NewDriverContext env configuration) = None \<longrightarrow>
      Driver_GetConnection env m transportUrl transports' options =
        (Connect env (NewConnection env (NewMessageCodec transportInstance) configuration
                        (fst (NewDriverContext env configuration)) (fieldHandler m) (tm m)),
         [Step_LookupTransport, Step_InjectDefaultTcpPort, Step_CreateTransportInstance,
          Step_NewMessageCodec, Step_ParseFromOptions, Step_NewDriverContext,
          Step_NewConnection, Step_Connect])) \<and>
   prefix (snd (Driver_GetConnection env m transportUrl transports' options)) code_order \<and>
   Driver_GetDefaultTransport m = ''tcp''"
proof -
  have "prefix (snd (Driver_GetConnection env m transportUrl transports' options)) code_order"
    by (simp add: Driver_GetConnection_def code_order_def Let_def
        split: option.splits sum.splits prod.splits)
  then show ?thesis
    by (auto simp: Driver_GetConnection_def single_error_def Driver_GetDefaultTransport_def
        split: prod.splits)
qed

theorem C8_GetConnection_order_witness:
  "Driver_GetConnection (example_env (Inr ()) None) example_Driver tcp_url Map.empty Map.empty =
     ([NewPlcConnectionConnectResult None
         (Some (New ''couldn't find transport for given transport url tcp://10.0.0.1''))],
      [Step_LookupTransport]) \<and>
   Driver_GetConnection (example_env (Inr ()) None) example_Driver tcp_url
     [''tcp'' \<mapsto> example_Transport (Inl (New ''refused''))] Map.empty =
     ([NewPlcConnectionConnectResult None
         (Some (New ''couldn't initialize transport configuration for given transport url tcp://10.0.0.1''))],
      [Step_LookupTransport, Step_InjectDefaultTcpPort, Step_CreateTransportInstance]) \<and>
   Driver_GetConnection (example_env (Inl (New ''rack'')) None) example_Driver tcp_url
     [''tcp'' \<mapsto> example_Transport (Inr ())] Map.empty =
     ([NewPlcConnectionConnectResult None (Some (Wrap (New ''rack'') ''Invalid options''))],
      [Step_LookupTransport, Step_InjectDefaultTcpPort, Step_CreateTransportInstance,
       Step_NewMessageCodec, Step_ParseFromOptions]) \<and>
   Driver_GetConnection (example_env (Inr ()) None) example_Driver tcp_url
     [''tcp'' \<mapsto> example_Transport (Inr ())] Map.empty =
     ([NewPlcConnectionConnectResult None None],
      [Step_LookupTransport, Step_InjectDefaultTcpPort, Step_CreateTransportInstance,
       Step_NewMessageCodec, Step_ParseFromOptions, Step_NewDriverContext,
       Step_NewConnection, Step_Connect])"
proof -
  let ?ok = "example_env (Inr ()) None" and ?bad = "example_env (Inl (New ''rack'')) None"
  let ?opts = "(Map.empty :: options)(''defaultTcpPort'' \<mapsto> [''102''])"
  let ?tr = "[''tcp'' \<mapsto> example_Transport (Inr ())] :: string \<rightharpoonup> unit Transport"
  let ?trbad = "[''tcp'' \<mapsto> example_Transport (Inl (New ''refused''))] :: string \<rightharpoonup> unit Transport"
  have h1: "(Map.empty :: string \<rightharpoonup> unit Transport) (Scheme tcp_url) = None"
    by simp
  have h2: "?trbad (Scheme tcp_url) = Some (example_Transport (Inl (New ''refused''))) \<and>
      CreateTransportInstance (example_Transport (Inl (New ''refused''))) tcp_url ?opts =
        Inl (New ''refused'')"
    by (simp add: tcp_url_def example_Transport_def)
  have h3: "?tr (Scheme tcp_url) = Some (example_Transport (Inr ())) \<and>
      CreateTransportInstance (example_Transport (Inr ())) tcp_url ?opts = Inr () \<and>
      ParseFromOptions ?bad ?opts = Inl (New ''rack'')"
    by (simp add: tcp_url_def example_Transport_def example_env_def)
  have h4: "?tr (Scheme tcp_url) = Some (example_Transport (Inr ())) \<and>
      CreateTransportInstance (example_Transport (Inr ())) tcp_url ?opts = Inr () \<and>
      ParseFromOptions ?ok ?opts = Inr () \<and> snd (NewDriverContext ?ok ()) = None"
    by (simp add: tcp_url_def example_Transport_def example_env_def)
  have s1: "URL_GoString ?ok tcp_url = ''tcp://10.0.0.1''"
    and s2: "URL_String ?ok tcp_url = ''tcp://10.0.0.1''"
    and s3: "Connect ?ok (NewConnection ?ok (NewMessageCodec ()) ()
               (fst (NewDriverContext ?ok ())) (fieldHandler example_Driver) (tm example_Driver)) =
             [NewPlcConnectionConnectResult None None]"
    by (simp_all add: example_env_def tcp_url_def)
  have c1: "Driver_GetConnection ?ok example_Driver tcp_url Map.empty Map.empty =
     ([NewPlcConnectionConnectResult None
         (Some (New (''couldn't find transport for given transport url '' @
                     URL_GoString ?ok tcp_url)))],
      [Step_LookupTransport])"
    using C8_GetConnection_order [where transports' = "Map.empty" and transportUrl = tcp_url
        and env = ?ok and m = example_Driver and options = Map.empty] h1
    by blast
  have c2: "Driver_GetConnection ?ok example_Driver tcp_url ?trbad Map.empty =
     ([NewPlcConnectionConnectResult None
         (Some (New (''couldn't initialize transport configuration for given transport url '' @
                     URL_String ?ok tcp_url)))],
      [Step_LookupTransport, Step_InjectDefaultTcpPort, Step_CreateTransportInstance])"
    using C8_GetConnection_order [where transports' = ?trbad and transportUrl = tcp_url
        and env = ?ok and m = example_Driver and options = Map.empty
        and transport = "example_Transport (Inl (New ''refused''))"
        and ?err1.0 = "New ''refused''"] h2
    by blast
  have c3: "Driver_GetConnection ?bad example_Driver tcp_url ?tr Map.empty =
     ([NewPlcConnectionConnectResult None (Some (Wrap (New ''rack'') ''Invalid options''))],
      [Step_LookupTransport, Step_InjectDefaultTcpPort, Step_CreateTransportInstance,
       Step_NewMessageCodec, Step_ParseFromOptions])"
    using C8_GetConnection_order [where transports' = ?tr and transportUrl = tcp_url
        and env = ?bad and m = example_Driver and options = Map.empty
        and transport = "example_Transport (Inr ())" and transportInstance = "()"
        and ?err2.0 = "New ''rack''"] h3
    by blast
  have c4: "Driver_GetConnection ?ok example_Driver tcp_url ?tr Map.empty =
     (Connect ?ok (NewConnection ?ok (NewMessageCodec ()) ()
               (fst (NewDriverContext ?ok ())) (fieldHandler example_Driver) (tm example_Driver)),
      [Step_LookupTransport, Step_InjectDefaultTcpPort, Step_CreateTransportInstance,
       Step_NewMessageCodec, Step_ParseFromOptions, Step_NewDriverContext,
       Step_NewConnection, Step_Connect])"
    using C8_GetConnection_order [where transports' = ?tr and transportUrl = tcp_url
        and env = ?ok and m = example_Driver and options = Map.empty
        and transport = "example_Transport (Inr ())" and transportInstance = "()"
        and configuration = "()"] h4
    by blast
  from c1 c2 c3 c4 show ?thesis
    unfolding s1 s2 s3 by simp
qed

end
